theory Spec2Isabelle
  imports Main "HOL-Library.AList"
begin

section \<open>JavaScript values\<close>

text \<open>
  The Photon JavaScript SDK (\<^verbatim>\<open>Photon-Javascript_SDK.js\<close>) is embedded function by function.
  JavaScript values are trees: the values a message decoded by \<^verbatim>\<open>JSON.parse\<close> can hold, plus
  \<^verbatim>\<open>undefined\<close>. A string is a list of code units; a \<open>char\<close> stands for one code unit
  (the model has the code units below 256). Numbers are the integer-valued doubles, \<^verbatim>\<open>NaN\<close>
  and the two infinities; \<open>Fin 0\<close> stands for both zeros. An object is the list of its own
  properties, each key once: in enumeration order for an object decoded from a message, in
  the order the keys were added for an object the SDK builds (JavaScript enumerates the
  integer keys of an object first, in ascending order; the value of a key, the set of the keys
  and their number do not depend on the order).
\<close>

datatype jsnum = NaN | PosInf | NegInf | Fin int

type_synonym 'v obj = "(string \<times> 'v) list"

datatype jsval =
    JUndefined
  | JNull
  | JBool bool
  | JNum jsnum
  | JStr string
  | JArr "jsval list"
  | JObj "(string \<times> jsval) list"

text \<open>
  \<^verbatim>\<open>ob[k]\<close> on a plain object without the key is \<^verbatim>\<open>undefined\<close>. (The properties a plain
  object inherits are functions, which are no values of the model.)
\<close>

definition obj_get :: "jsval obj \<Rightarrow> string \<Rightarrow> jsval" where
  "obj_get ob k = (case map_of ob k of Some v \<Rightarrow> v | None \<Rightarrow> JUndefined)"

text \<open>
  \<^verbatim>\<open>ob[k] = v\<close> on a plain object replaces the value of an existing key and adds a new key
  otherwise. The key \<^verbatim>\<open>__proto__\<close> is the accessor of \<^verbatim>\<open>Object.prototype\<close>: assigning to
  it never creates an own property.
\<close>

definition obj_set :: "'v obj \<Rightarrow> string \<Rightarrow> 'v \<Rightarrow> 'v obj" where
  "obj_set ob k v = (if k = ''__proto__'' then ob else AList.update k v ob)"

fun truthy :: "jsval \<Rightarrow> bool" where
  "truthy JUndefined = False"
| "truthy JNull = False"
| "truthy (JBool b) = b"
| "truthy (JNum n) = (n \<noteq> NaN \<and> n \<noteq> Fin 0)"
| "truthy (JStr s) = (s \<noteq> [])"
| "truthy (JArr xs) = True"
| "truthy (JObj ps) = True"

text \<open>
  \<^verbatim>\<open>a === b\<close>. Two primitives are compared by value (\<^verbatim>\<open>NaN\<close> equals nothing); objects and
  arrays are compared by identity, and the trees of the model are the contents of distinct
  objects (one stored earlier, one decoded from a later message), so they are never identical.
\<close>

fun strict_eq :: "jsval \<Rightarrow> jsval \<Rightarrow> bool" where
  "strict_eq JUndefined JUndefined = True"
| "strict_eq JNull JNull = True"
| "strict_eq (JBool a) (JBool b) = (a = b)"
| "strict_eq (JNum a) (JNum b) = (a \<noteq> NaN \<and> a = b)"
| "strict_eq (JStr a) (JStr b) = (a = b)"
| "strict_eq a b = False"

fun typeof :: "jsval \<Rightarrow> string" where
  "typeof JUndefined = ''undefined''"
| "typeof JNull = ''object''"
| "typeof (JBool b) = ''boolean''"
| "typeof (JNum n) = ''number''"
| "typeof (JStr s) = ''string''"
| "typeof (JArr xs) = ''object''"
| "typeof (JObj ps) = ''object''"

text \<open>\<^verbatim>\<open>Exitgames.Common.Util.isArray\<close>\<close>

fun isArray :: "jsval \<Rightarrow> bool" where
  "isArray (JArr xs) = True"
| "isArray v = False"

subsection \<open>Numbers and their strings\<close>

definition digit_char :: "nat \<Rightarrow> char" where
  "digit_char d = ''0123456789abcdef'' ! d"

definition is_digit :: "char \<Rightarrow> bool" where
  "is_digit c = (48 \<le> (of_char c :: nat) \<and> (of_char c :: nat) \<le> 57)"

definition digit_val :: "char \<Rightarrow> nat" where
  "digit_val c = of_char c - 48"

definition is_hexdigit :: "char \<Rightarrow> bool" where
  "is_hexdigit c = (is_digit c \<or> c \<in> set ''abcdefABCDEF'')"

definition hexdigit_val :: "char \<Rightarrow> nat" where
  "hexdigit_val c =
     (if is_digit c then digit_val c
      else if c \<in> set ''abcdef'' then of_char c - 87 else of_char c - 55)"

text \<open>
  White space as \<^verbatim>\<open>parseInt\<close> and \<^verbatim>\<open>Number\<close> skip it: tab, line feed, vertical tab, form
  feed, carriage return, space and no-break space.
\<close>

definition is_space :: "char \<Rightarrow> bool" where
  "is_space c = (c \<in> set [CHR 0x09, CHR 0x0A, CHR 0x0B, CHR 0x0C, CHR 0x0D, CHR 0x20, CHR 0xA0])"

fun digits10 :: "nat \<Rightarrow> string" where
  "digits10 n = (if n < 10 then [digit_char n] else digits10 (n div 10) @ [digit_char (n mod 10)])"

declare digits10.simps [simp del]

definition dec_val :: "string \<Rightarrow> nat" where
  "dec_val s = foldl (\<lambda>a c. 10 * a + digit_val c) 0 s"

definition hex_val :: "string \<Rightarrow> nat" where
  "hex_val s = foldl (\<lambda>a c. 16 * a + hexdigit_val c) 0 s"

fun bitlen :: "nat \<Rightarrow> nat" where
  "bitlen n = (if n = 0 then 0 else Suc (bitlen (n div 2)))"

declare bitlen.simps [simp del]

text \<open>
  The double nearest to the natural number \<open>m\<close> (ties to the even significand), as a natural
  number: a double has 53 significant bits, so every \<open>m\<close> below \<open>2 ^ 53\<close> is one.
\<close>

definition round_double :: "nat \<Rightarrow> nat" where
  "round_double m =
     (if m < 2 ^ 53 then m
      else let e = bitlen m - 53; q = m div 2 ^ e; r = m mod 2 ^ e;
               q' = (if 2 ^ e < 2 * r \<or> (2 * r = 2 ^ e \<and> odd q) then q + 1 else q)
           in q' * 2 ^ e)"

definition to_double :: "bool \<Rightarrow> nat \<Rightarrow> jsnum" where
  "to_double neg m =
     (let a = round_double m
      in if 2 ^ 1024 \<le> a then (if neg then NegInf else PosInf)
         else Fin (if neg then - int a else int a))"

text \<open>
  \<^verbatim>\<open>Number.prototype.toString\<close> prints the decimal with the fewest significant digits that
  still rounds to the number, the one closest to it: \<open>shortest_decimal\<close>. Up to 21 digits are
  written out, a longer number is written with an exponent.
\<close>

definition shortest_decimal :: "nat \<Rightarrow> nat" where
  "shortest_decimal x =
     (let d = length (digits10 x);
          cands = concat (map (\<lambda>k.
                    let p = 10 ^ (d - k); lo = (x div p) * p; hi = lo + p
                    in filter (\<lambda>c. round_double c = x)
                         (if x - lo < hi - x \<or> (x - lo = hi - x \<and> even (x div p))
                          then [lo, hi] else [hi, lo]))
                  [1..<Suc d])
      in case cands of [] \<Rightarrow> x | c # cs \<Rightarrow> c)"

definition pos_toString :: "nat \<Rightarrow> string" where
  "pos_toString m =
     (if m < 2 ^ 53 then digits10 m
      else let ds = digits10 (shortest_decimal m)
           in if length ds \<le> 21 then ds
              else let sig = rev (dropWhile (\<lambda>c. c = CHR ''0'') (rev ds))
                   in hd ds # (if tl sig = [] then [] else CHR ''.'' # tl sig)
                        @ ''e+'' @ digits10 (length ds - 1))"

fun numToString :: "jsnum \<Rightarrow> string" where
  "numToString NaN = ''NaN''"
| "numToString PosInf = ''Infinity''"
| "numToString NegInf = ''-Infinity''"
| "numToString (Fin n) = (if n < 0 then CHR ''-'' # pos_toString (nat (- n)) else pos_toString (nat n))"

text \<open>
  \<^verbatim>\<open>parseInt(str)\<close> with no radix: white space is skipped, then a sign, then \<^verbatim>\<open>0x\<close> selects
  radix 16; the longest run of digits is read (none gives \<^verbatim>\<open>NaN\<close>) and rounded to a double.
\<close>

definition parseInt :: "string \<Rightarrow> jsnum" where
  "parseInt str =
     (let s = dropWhile is_space str;
          neg = (s \<noteq> [] \<and> hd s = CHR ''-'');
          s1 = (if s \<noteq> [] \<and> (hd s = CHR ''+'' \<or> hd s = CHR ''-'') then tl s else s);
          hex = (take 2 s1 = ''0x'' \<or> take 2 s1 = ''0X'');
          s2 = (if hex then drop 2 s1 else s1);
          z = takeWhile (if hex then is_hexdigit else is_digit) s2
      in if z = [] then NaN else to_double neg (if hex then hex_val z else dec_val z))"

subsection \<open>\<^verbatim>\<open>String(v)\<close> and \<^verbatim>\<open>JSON.stringify(v)\<close>\<close>

fun join :: "string \<Rightarrow> string list \<Rightarrow> string" where
  "join sep [] = []"
| "join sep [x] = x"
| "join sep (x # y # ys) = x @ sep @ join sep (y # ys)"

text \<open>\<^verbatim>\<open>String(v)\<close>, which is also \<^verbatim>\<open>v + ""\<close> and the property key \<^verbatim>\<open>ob[v]\<close> uses.\<close>

fun to_String :: "jsval \<Rightarrow> string" where
  "to_String JUndefined = ''undefined''"
| "to_String JNull = ''null''"
| "to_String (JBool b) = (if b then ''true'' else ''false'')"
| "to_String (JNum n) = numToString n"
| "to_String (JStr s) = s"
| "to_String (JArr xs) =
     join '','' (map (\<lambda>x. if x = JUndefined \<or> x = JNull then [] else to_String x) xs)"
| "to_String (JObj ps) = ''[object Object]''"

definition JSON_quote_char :: "char \<Rightarrow> string" where
  "JSON_quote_char c =
     (if c = CHR 0x22 then [CHR 0x5C, CHR 0x22]
      else if c = CHR 0x5C then [CHR 0x5C, CHR 0x5C]
      else if c = CHR 0x08 then [CHR 0x5C, CHR ''b'']
      else if c = CHR 0x09 then [CHR 0x5C, CHR ''t'']
      else if c = CHR 0x0A then [CHR 0x5C, CHR ''n'']
      else if c = CHR 0x0C then [CHR 0x5C, CHR ''f'']
      else if c = CHR 0x0D then [CHR 0x5C, CHR ''r'']
      else if (of_char c :: nat) < 32
        then [CHR 0x5C, CHR ''u'', CHR ''0'', CHR ''0'',
              digit_char (of_char c div 16), digit_char (of_char c mod 16)]
      else [c])"

definition JSON_quote :: "string \<Rightarrow> string" where
  "JSON_quote s = CHR 0x22 # concat (map JSON_quote_char s) @ [CHR 0x22]"

text \<open>
  \<^verbatim>\<open>JSON.stringify(v)\<close>. A property whose value is \<^verbatim>\<open>undefined\<close> is left out, an
  \<^verbatim>\<open>undefined\<close> array element is written \<^verbatim>\<open>null\<close>, as is a number that is not finite.
  (\<^verbatim>\<open>JSON.stringify(undefined)\<close> is not a string; the SDK never calls it so.)
\<close>

fun JSON_stringify :: "jsval \<Rightarrow> string" where
  "JSON_stringify JUndefined = ''undefined''"
| "JSON_stringify JNull = ''null''"
| "JSON_stringify (JBool b) = (if b then ''true'' else ''false'')"
| "JSON_stringify (JNum n) = (case n of Fin i \<Rightarrow> numToString n | _ \<Rightarrow> ''null'')"
| "JSON_stringify (JStr s) = JSON_quote s"
| "JSON_stringify (JArr xs) =
     ''['' @ join '','' (map (\<lambda>x. if x = JUndefined then ''null'' else JSON_stringify x) xs) @ '']''"
| "JSON_stringify (JObj ps) =
     ''{'' @ join '','' (concat (map (\<lambda>(k, v). if v = JUndefined then []
                                            else [JSON_quote k @ '':'' @ JSON_stringify v]) ps)) @ ''}''"

section \<open>Errors\<close>

text \<open>
  The workflow states of \<^verbatim>\<open>LoadBalancingClient.State\<close>, and the errors the SDK throws, one
  constructor for each \<^verbatim>\<open>throw\<close> of the functions embedded here. A method is a function from
  the state before the call to the result (\<open>Inl\<close> an error thrown, \<open>Inr\<close> the value returned)
  and the state the call leaves.
\<close>

datatype state =
    Error
  | Uninitialized
  | ConnectingToMasterserver
  | ConnectedToMaster
  | JoinedLobby
  | ConnectingToGameserver
  | ConnectedToGameserver
  | Joined
  | Disconnecting
  | Disconnected

datatype error =
    SendNonArrayData
  | SendFailed
  | InvalidValuesArray
  | JoinUndefinedRoomName
  | JoinAlreadyJoined
  | JoinNotConnected
  | CheckNextStateFail state state

section \<open>PhotonPeer: the message framing\<close>

definition frame :: string where
  "frame = ''~m~''"

text \<open>\<^verbatim>\<open>PhotonPeer._stringify\<close>: a plain object is sent as tagged JSON, anything else as its string.\<close>

fun stringify :: "jsval \<Rightarrow> string" where
  "stringify (JObj ps) = ''~j~'' @ JSON_stringify (JObj ps)"
| "stringify v = to_String v"

text \<open>
  \<^verbatim>\<open>PhotonPeer._encode\<close>: a value that is no array is one message; the loop appends the marker,
  the decimal length, the marker and the message, for each message in order.
\<close>

fun encode_loop :: "jsval list \<Rightarrow> string \<Rightarrow> string" where
  "encode_loop [] ret = ret"
| "encode_loop (m # ms) ret =
     (let message = (if m = JNull \<or> m = JUndefined then [] else stringify m)
      in encode_loop ms (ret @ frame @ digits10 (length message) @ frame @ message))"

definition encode :: "jsval \<Rightarrow> string" where
  "encode messages = encode_loop (case messages of JArr ms \<Rightarrow> ms | m \<Rightarrow> [m]) []"

text \<open>
  The inner loop of \<^verbatim>\<open>PhotonPeer._decode\<close> reads the length: \<^verbatim>\<open>Number(c)\<close> of a one-character
  string is a number for a digit and for white space (then 0), and \<^verbatim>\<open>c == n\<close> holds exactly
  then; the characters are collected as digits until the first other character, where the loop
  breaks. The result is the digit string and whether the loop broke.
\<close>

definition is_numchar :: "char \<Rightarrow> bool" where
  "is_numchar c = (is_digit c \<or> is_space c)"

fun scan_number :: "string \<Rightarrow> string \<Rightarrow> string \<times> bool" where
  "scan_number [] number = (number, False)"
| "scan_number (c # cs) number =
     (if is_numchar c then scan_number cs (number @ [if is_digit c then c else CHR ''0''])
      else (number, True))"

text \<open>
  The \<^verbatim>\<open>do ... while\<close> loop of \<^verbatim>\<open>PhotonPeer._decode\<close>. Where the inner loop broke, the data
  is cut after the digits and three more characters; where it ran to the end of the data the
  data stays as it is. Then that many characters are one message.
\<close>

function decode_loop :: "string \<Rightarrow> string list \<Rightarrow> string list" where
  "decode_loop data messages =
     (if take 3 data \<noteq> frame then messages
      else let data1 = drop 3 data;
               (number, broke) = scan_number data1 [];
               data2 = (if broke then drop (length number + length frame) data1 else data1);
               n = dec_val number;
               messages' = messages @ [take n data2];
               data3 = drop n data2
           in if data3 \<noteq> [] then decode_loop data3 messages' else messages')"
  by pat_completeness auto
termination
proof (relation "measure (\<lambda>(data, messages). length data)", goal_cases)
  case 1
  show ?case by simp
next
  case (2 data messages data1 x number broke data2 n messages' data3)
  have "length data3 \<le> length data1" using 2 by (auto split: if_splits)
  moreover have "3 \<le> length data" using 2(1) by (cases "length data < 3") (auto simp: frame_def)
  ultimately show ?case using 2 by simp
qed

declare decode_loop.simps [simp del]

text \<open>\<^verbatim>\<open>PhotonPeer._decode\<close>: every NUL character is removed before the loop runs.\<close>

definition decode :: "string \<Rightarrow> string list" where
  "decode data =
     decode_loop (if CHR 0x00 \<in> set data then filter (\<lambda>c. c \<noteq> CHR 0x00) data else data) []"

text \<open>
  The text of a message on the wire, as the loop of \<^verbatim>\<open>_encode\<close> computes it: empty for
  \<^verbatim>\<open>null\<close> and \<^verbatim>\<open>undefined\<close>.
\<close>

definition message_text :: "jsval \<Rightarrow> string" where
  "message_text m = (if m = JNull \<or> m = JUndefined then [] else stringify m)"

section \<open>PhotonPeer: the values array of a received message\<close>

text \<open>
  The loop of \<^verbatim>\<open>PhotonPeer._parseMessageValuesArrayToJSON\<close> takes a key and a value from the
  front of the array until it is empty. The key is made a string (\<^verbatim>\<open>toParse.shift() + ""\<close>);
  \<^verbatim>\<open>shift\<close> on an empty array gives \<^verbatim>\<open>undefined\<close>.
\<close>

fun parseMessageValuesArrayToJSON_loop :: "jsval list \<Rightarrow> jsval obj \<Rightarrow> jsval obj" where
  "parseMessageValuesArrayToJSON_loop [] parsedJSON = parsedJSON"
| "parseMessageValuesArrayToJSON_loop [k] parsedJSON = obj_set parsedJSON (to_String k) JUndefined"
| "parseMessageValuesArrayToJSON_loop (k # v # toParse) parsedJSON =
     parseMessageValuesArrayToJSON_loop toParse (obj_set parsedJSON (to_String k) v)"

definition parseMessageValuesArrayToJSON :: "jsval \<Rightarrow> error + jsval obj" where
  "parseMessageValuesArrayToJSON vals =
     (case vals of
        JArr xs \<Rightarrow>
          if length xs mod 2 = 0 then Inr (parseMessageValuesArrayToJSON_loop xs [])
          else Inl InvalidValuesArray
      | _ \<Rightarrow> Inr [])"

text \<open>
  The keys of a flat array as the loop reads them, each with the element that follows it:
  the elements at the even positions, made strings.
\<close>

fun key_value_pairs :: "jsval list \<Rightarrow> (string \<times> jsval) list" where
  "key_value_pairs (k # v # rest) = (to_String k, v) # key_value_pairs rest"
| "key_value_pairs xs = []"

fun keys_at_even :: "jsval list \<Rightarrow> jsval list" where
  "keys_at_even (k # v # rest) = k # keys_at_even rest"
| "keys_at_even xs = []"

section \<open>PhotonPeer: sending and the keep-alive timer\<close>

text \<open>
  The environment of a peer: the clock (\<^verbatim>\<open>Date.now()\<close>), the pending calls of
  \<^verbatim>\<open>setTimeout\<close> (the id of each and the time it is due) and the id the next call returns.
  Ids are positive, so the initial \<^verbatim>\<open>keepAliveTimer = 0\<close> names no timer.
\<close>

record env =
  now :: int
  timeouts :: "(nat \<times> int) list"
  next_id :: nat

definition clearTimeout :: "nat \<Rightarrow> env \<Rightarrow> env" where
  "clearTimeout i e = e\<lparr>timeouts := filter (\<lambda>(j, due). j \<noteq> i) (timeouts e)\<rparr>"

definition setTimeout :: "int \<Rightarrow> env \<Rightarrow> nat \<times> env" where
  "setTimeout delay e =
     (next_id e, e\<lparr>timeouts := timeouts e @ [(next_id e, now e + delay)], next_id := Suc (next_id e)\<rparr>)"

definition new_env :: "int \<Rightarrow> env" where
  "new_env t = \<lparr>now = t, timeouts = [], next_id = 1\<rparr>"

text \<open>
  The fields of a \<^verbatim>\<open>PhotonPeer\<close>. \<open>socket_sent\<close> is the list of the messages handed to
  \<^verbatim>\<open>_socket.send\<close>, in order. Each of the three listener registries is kept as the list of
  the codes a listener was added for, in the order of the calls.
\<close>

record peer =
  url :: string
  subprotocol :: string
  keepAliveTimeoutMs :: int
  isConnecting :: bool
  isConnected :: bool
  isClosing :: bool
  keepAliveTimer :: nat
  socket_sent :: "string list"
  peerStatusListeners :: "string list"
  eventListeners :: "string list"
  responseListeners :: "string list"

text \<open>The constructor \<^verbatim>\<open>PhotonPeer(url, subprotocol)\<close>.\<close>

definition new_PhotonPeer :: "string \<Rightarrow> string \<Rightarrow> peer" where
  "new_PhotonPeer u sp =
     \<lparr>url = u, subprotocol = sp, keepAliveTimeoutMs = 5000, isConnecting = False,
      isConnected = False, isClosing = False, keepAliveTimer = 0, socket_sent = [],
      peerStatusListeners = [], eventListeners = [], responseListeners = []\<rparr>"

text \<open>
  \<^verbatim>\<open>PhotonPeer.connect\<close> opens the socket and calls \<^verbatim>\<open>_onConnecting\<close>; \<^verbatim>\<open>_onConnect\<close> runs
  when the session id arrives; \<^verbatim>\<open>PhotonPeer.disconnect\<close> marks the peer closing and asks the
  socket to close.
\<close>

definition peer_connect :: "'a peer_scheme \<Rightarrow> 'a peer_scheme" where
  "peer_connect p = p\<lparr>isConnecting := True\<rparr>"

definition onConnect :: "'a peer_scheme \<Rightarrow> 'a peer_scheme" where
  "onConnect p = p\<lparr>isConnecting := False, isConnected := True\<rparr>"

definition peer_disconnect :: "'a peer_scheme \<Rightarrow> 'a peer_scheme" where
  "peer_disconnect p = p\<lparr>isClosing := True\<rparr>"

text \<open>
  \<^verbatim>\<open>addPeerStatusListener\<close>, \<^verbatim>\<open>addEventListener\<close> and \<^verbatim>\<open>addResponseListener\<close>; the last
  two take a numeric code and register its string.
\<close>

definition addPeerStatusListener :: "string \<Rightarrow> 'a peer_scheme \<Rightarrow> 'a peer_scheme" where
  "addPeerStatusListener statusCode p = p\<lparr>peerStatusListeners := peerStatusListeners p @ [statusCode]\<rparr>"

definition addEventListener :: "int \<Rightarrow> 'a peer_scheme \<Rightarrow> 'a peer_scheme" where
  "addEventListener eventCode p =
     p\<lparr>eventListeners := eventListeners p @ [numToString (Fin eventCode)]\<rparr>"

definition addResponseListener :: "int \<Rightarrow> 'a peer_scheme \<Rightarrow> 'a peer_scheme" where
  "addResponseListener operationCode p =
     p\<lparr>responseListeners := responseListeners p @ [numToString (Fin operationCode)]\<rparr>"

text \<open>\<^verbatim>\<open>PhotonPeer.resetKeepAlive\<close>\<close>

definition resetKeepAlive :: "'a peer_scheme \<times> env \<Rightarrow> 'a peer_scheme \<times> env" where
  "resetKeepAlive = (\<lambda>(p, e).
     let e1 = clearTimeout (keepAliveTimer p) e
     in if keepAliveTimeoutMs p \<ge> 1000
        then let (i, e2) = setTimeout (keepAliveTimeoutMs p) e1 in (p\<lparr>keepAliveTimer := i\<rparr>, e2)
        else (p, e1))"

text \<open>
  \<^verbatim>\<open>PhotonPeer._send(data, checkConnected)\<close>: with \<open>checkConnected\<close> a peer that is not
  connected, or is closing, drops the message silently; without it the call throws.
\<close>

definition send :: "jsval \<Rightarrow> bool \<Rightarrow> 'a peer_scheme \<times> env \<Rightarrow> (error + unit) \<times> ('a peer_scheme \<times> env)" where
  "send data checkConnected = (\<lambda>(p, e).
     let message = encode data
     in if isConnected p \<and> \<not> isClosing p
        then let (p1, e1) = resetKeepAlive (p, e)
             in (Inr (), (p1\<lparr>socket_sent := socket_sent p1 @ [message]\<rparr>, e1))
        else if \<not> checkConnected then (Inl SendFailed, (p, e))
        else (Inr (), (p, e)))"

text \<open>\<^verbatim>\<open>PhotonPeer.sendOperation(code, data)\<close>\<close>

definition sendOperation :: "jsval \<Rightarrow> jsval \<Rightarrow> 'a peer_scheme \<times> env \<Rightarrow> (error + unit) \<times> ('a peer_scheme \<times> env)" where
  "sendOperation code data = (\<lambda>(p, e).
     if isArray data then send (JObj [(''req'', code), (''vals'', data)]) False (p, e)
     else if data = JUndefined then send (JObj [(''req'', code), (''vals'', JArr [])]) False (p, e)
     else (Inl SendNonArrayData, (p, e)))"

text \<open>
  The callback \<^verbatim>\<open>resetKeepAlive\<close> hands to \<^verbatim>\<open>setTimeout\<close>: the internal ping, sent with
  \<open>checkConnected\<close>.
\<close>

definition keepAlive_ping :: "int \<Rightarrow> jsval" where
  "keepAlive_ping t = JObj [(''irq'', JNum (Fin 1)), (''vals'', JArr [JNum (Fin 1), JNum (Fin t)])]"

definition keepAlive_callback :: "'a peer_scheme \<times> env \<Rightarrow> (error + unit) \<times> ('a peer_scheme \<times> env)" where
  "keepAlive_callback = (\<lambda>(p, e). send (keepAlive_ping (now e)) True (p, e))"

text \<open>
  The browser runs the pending timeout \<open>i\<close>: the clock is at the time the timeout is due (or
  later already), the timeout is pending no more, and its callback runs. A timeout that is
  not pending never runs.
\<close>

definition expire :: "nat \<Rightarrow> 'a peer_scheme \<times> env \<Rightarrow> 'a peer_scheme \<times> env" where
  "expire i = (\<lambda>(p, e).
     case map_of (timeouts e) i of
       None \<Rightarrow> (p, e)
     | Some due \<Rightarrow> snd (keepAlive_callback (p, (clearTimeout i e)\<lparr>now := max (now e) due\<rparr>)))"

text \<open>The peer stays idle while \<open>n\<close> keep-alive timeouts expire one after the other.\<close>

primrec idle :: "nat \<Rightarrow> 'a peer_scheme \<times> env \<Rightarrow> 'a peer_scheme \<times> env" where
  "idle 0 s = s"
| "idle (Suc n) s = idle n (expire (keepAliveTimer (fst s)) s)"

text \<open>The only pending timeout is the keep-alive timer of the peer, due at \<open>d\<close>.\<close>

definition armed :: "'a peer_scheme \<times> env \<Rightarrow> int \<Rightarrow> bool" where
  "armed s d = (timeouts (snd s) = [(keepAliveTimer (fst s), d)] \<and>
                keepAliveTimer (fst s) < next_id (snd s))"

text \<open>No timeout is pending but, at most, the keep-alive timer of the peer.\<close>

definition own_timers :: "'a peer_scheme \<times> env \<Rightarrow> bool" where
  "own_timers s = ((\<forall>(i, d)\<in>set (timeouts (snd s)). i = keepAliveTimer (fst s)) \<and>
                   keepAliveTimer (fst s) < next_id (snd s))"

section \<open>LitePeer\<close>

definition LiteOpKey_GameId :: jsval where "LiteOpKey_GameId = JNum (Fin 255)"
definition LiteOpKey_GameProperties :: jsval where "LiteOpKey_GameProperties = JNum (Fin 248)"
definition LiteOpKey_ActorProperties :: jsval where "LiteOpKey_ActorProperties = JNum (Fin 249)"
definition LiteOpKey_Broadcast :: jsval where "LiteOpKey_Broadcast = JNum (Fin 250)"
definition LiteOpCode_Join :: jsval where "LiteOpCode_Join = JNum (Fin 255)"

record litePeer = peer +
  isJoined :: bool
  roomName :: string

text \<open>The constructor \<^verbatim>\<open>LitePeer(url, subprotocol)\<close>.\<close>

definition new_LitePeer :: "string \<Rightarrow> string \<Rightarrow> litePeer" where
  "new_LitePeer u sp =
     \<lparr>url = u, subprotocol = sp, keepAliveTimeoutMs = 5000, isConnecting = False,
      isConnected = False, isClosing = False, keepAliveTimer = 0, socket_sent = [],
      peerStatusListeners = [], eventListeners = [], responseListeners = [],
      isJoined = False, roomName = []\<rparr>"

text \<open>\<^verbatim>\<open>LitePeer.join(roomName, roomProperties, actorProperties, broadcast)\<close>\<close>

definition join_params :: "jsval \<Rightarrow> jsval \<Rightarrow> jsval \<Rightarrow> jsval \<Rightarrow> jsval list" where
  "join_params rn roomProperties actorProperties broadcast =
     [LiteOpKey_GameId, JStr (to_String rn)]
     @ (if typeof roomProperties = ''object'' then [LiteOpKey_GameProperties, roomProperties] else [])
     @ (if typeof actorProperties = ''object'' then [LiteOpKey_ActorProperties, actorProperties] else [])
     @ [LiteOpKey_Broadcast, if truthy broadcast then broadcast else JBool False]"

definition lite_join :: "jsval \<Rightarrow> jsval \<Rightarrow> jsval \<Rightarrow> jsval \<Rightarrow> 'a litePeer_scheme \<times> env
    \<Rightarrow> (error + unit) \<times> ('a litePeer_scheme \<times> env)" where
  "lite_join rn roomProperties actorProperties broadcast = (\<lambda>(p, e).
     if rn \<noteq> JUndefined \<and> isConnected p \<and> \<not> isJoined p
     then sendOperation LiteOpCode_Join
            (JArr (join_params rn roomProperties actorProperties broadcast)) (p, e)
     else if rn = JUndefined then (Inl JoinUndefinedRoomName, (p, e))
     else if isJoined p then (Inl JoinAlreadyJoined, (p, e))
     else (Inl JoinNotConnected, (p, e)))"

section \<open>LoadBalancing: rooms\<close>

text \<open>
  The numeric codes of \<^verbatim>\<open>Constants.GameProperties\<close>, \<^verbatim>\<open>Constants.ActorProperties\<close> and
  \<^verbatim>\<open>Constants.ParameterCode\<close>, as the property keys they are used as (\<^verbatim>\<open>props[255]\<close> reads the
  key \<^verbatim>\<open>"255"\<close>).
\<close>

definition GameProperties_MaxPlayers :: string where "GameProperties_MaxPlayers = ''255''"
definition GameProperties_IsVisible :: string where "GameProperties_IsVisible = ''254''"
definition GameProperties_IsOpen :: string where "GameProperties_IsOpen = ''253''"
definition GameProperties_PlayerCount :: string where "GameProperties_PlayerCount = ''252''"
definition GameProperties_Removed :: string where "GameProperties_Removed = ''251''"
definition GameProperties_PropsListedInLobby :: string where "GameProperties_PropsListedInLobby = ''250''"
definition GameProperties_CleanupCacheOnLeave :: string where "GameProperties_CleanupCacheOnLeave = ''249''"
definition ActorProperties_PlayerName :: string where "ActorProperties_PlayerName = ''255''"

text \<open>
  A \<^verbatim>\<open>RoomInfo\<close>. The standard properties hold whatever value a message carried, so they
  are values of JavaScript; \<open>customProperties\<close> is the object \<^verbatim>\<open>_customProperties\<close>.
\<close>

record roomInfo =
  name :: string
  address :: string
  maxPlayers :: jsval
  isVisible :: jsval
  isOpen :: jsval
  playerCount :: jsval
  removed :: jsval
  cleanupCacheOnLeave :: jsval
  customProperties :: "jsval obj"
  propsListedInLobby :: jsval

text \<open>The constructor \<^verbatim>\<open>RoomInfo(name)\<close>.\<close>

definition new_RoomInfo :: "string \<Rightarrow> roomInfo" where
  "new_RoomInfo n =
     \<lparr>name = n, address = [], maxPlayers = JNum (Fin 0), isVisible = JBool True,
      isOpen = JBool True, playerCount = JNum (Fin 0), removed = JBool False,
      cleanupCacheOnLeave = JBool False, customProperties = [], propsListedInLobby = JArr []\<rparr>"

text \<open>\<^verbatim>\<open>RoomInfo.updateIfExists\<close>: \<^verbatim>\<open>props.hasOwnProperty(code)\<close> decides.\<close>

definition updateIfExists :: "jsval \<Rightarrow> string \<Rightarrow> jsval obj \<Rightarrow> jsval" where
  "updateIfExists prevValue code props =
     (case map_of props code of Some v \<Rightarrow> v | None \<Rightarrow> prevValue)"

text \<open>
  The loop of \<^verbatim>\<open>RoomInfo._updateFromProps\<close> over the keys of \<^verbatim>\<open>customProps\<close>: a key \<open>k\<close> with
  \<^verbatim>\<open>parseInt(k).toString() != k\<close> whose value differs from the stored one is stored and recorded
  in \<^verbatim>\<open>changedProps\<close>. The state of the loop is \<^verbatim>\<open>_customProperties\<close> and \<^verbatim>\<open>changedProps\<close>.
\<close>

fun copy_customProps :: "(string \<times> jsval) list \<Rightarrow> jsval obj \<times> jsval obj \<Rightarrow> jsval obj \<times> jsval obj" where
  "copy_customProps [] (custom, changedProps) = (custom, changedProps)"
| "copy_customProps ((k, v) # rest) (custom, changedProps) =
     (if numToString (parseInt k) \<noteq> k
      then (if \<not> strict_eq (obj_get custom k) v
            then copy_customProps rest (obj_set custom k v, obj_set changedProps k v)
            else copy_customProps rest (custom, changedProps))
      else copy_customProps rest (custom, changedProps))"

text \<open>
  \<^verbatim>\<open>RoomInfo._updateFromProps(props, customProps)\<close>. \<open>None\<close> stands for an argument that is
  absent. The result is the room and, where \<^verbatim>\<open>onPropertiesChange\<close> is called, its argument.
\<close>

definition updateFromProps :: "jsval obj option \<Rightarrow> jsval obj option \<Rightarrow> roomInfo \<Rightarrow> roomInfo \<times> jsval obj option" where
  "updateFromProps props customProps r =
     (case props of
        None \<Rightarrow> (r, None)
      | Some ps \<Rightarrow>
          let r1 = r\<lparr>maxPlayers := updateIfExists (maxPlayers r) GameProperties_MaxPlayers ps,
                     isVisible := updateIfExists (isVisible r) GameProperties_IsVisible ps,
                     isOpen := updateIfExists (isOpen r) GameProperties_IsOpen ps,
                     playerCount := updateIfExists (playerCount r) GameProperties_PlayerCount ps,
                     removed := updateIfExists (removed r) GameProperties_Removed ps,
                     propsListedInLobby :=
                       updateIfExists (propsListedInLobby r) GameProperties_PropsListedInLobby ps,
                     cleanupCacheOnLeave :=
                       updateIfExists (cleanupCacheOnLeave r) GameProperties_CleanupCacheOnLeave ps\<rparr>;
              cps = (case customProps of None \<Rightarrow> ps | Some c \<Rightarrow> c);
              (custom, changedProps) = copy_customProps cps (customProperties r1, [])
          in (r1\<lparr>customProperties := custom\<rparr>, Some changedProps))"


section \<open>LoadBalancing: actors\<close>

record actor =
  actor_name :: jsval
  actorNr :: jsval
  isLocal :: bool
  actor_customProperties :: "jsval obj"

text \<open>
  \<^verbatim>\<open>LoadBalancingClient.actorFactoryInternal(name, actorId, isLocal)\<close> with the constructor
  \<^verbatim>\<open>Actor(name, actorNr, isLocal)\<close>; an argument that is \<^verbatim>\<open>undefined\<close> takes its default.
\<close>

definition actorFactoryInternal :: "jsval \<Rightarrow> jsval \<Rightarrow> bool \<Rightarrow> actor" where
  "actorFactoryInternal n actorId local =
     \<lparr>actor_name = (if n = JUndefined then JStr [] else n),
      actorNr = (if actorId = JUndefined then JNum (Fin (- 1)) else actorId),
      isLocal = local, actor_customProperties = []\<rparr>"

text \<open>\<^verbatim>\<open>Actor._updateCustomProperties(vals)\<close>\<close>

definition updateCustomProperties :: "jsval obj \<Rightarrow> actor \<Rightarrow> actor" where
  "updateCustomProperties vals a =
     a\<lparr>actor_customProperties := foldl (\<lambda>cp (k, v). obj_set cp k v) (actor_customProperties a) vals\<rparr>"


section \<open>LoadBalancingClient\<close>

text \<open>
  The fields of the client. \<open>validNextState\<close> and \<open>actors\<close> are the objects of these names:
  the first is only read by key, the second is kept with its keys, the strings of the actor
  numbers. The local actor is a field of its own and an entry of \<open>actors\<close>.
\<close>

record client =
  masterServerAddress :: string
  keepMasterConnection :: bool
  reconnectPending :: bool
  roomInfos :: "roomInfo list"
  actors :: "actor obj"
  state :: state
  validNextState :: "state \<Rightarrow> state list option"
  currentRoom :: roomInfo
  myActor :: actor
  masterPeer :: "peer option"

text \<open>\<^verbatim>\<open>LoadBalancingClient.initValidNextState\<close>\<close>

definition initValidNextState :: "(state \<Rightarrow> state list option) \<Rightarrow> (state \<Rightarrow> state list option)" where
  "initValidNextState t =
     t(Error \<mapsto> [ConnectingToMasterserver],
       Uninitialized \<mapsto> [ConnectingToMasterserver],
       Disconnected \<mapsto> [ConnectingToMasterserver],
       ConnectedToMaster \<mapsto> [JoinedLobby],
       JoinedLobby \<mapsto> [ConnectingToGameserver],
       ConnectingToGameserver \<mapsto> [ConnectedToGameserver],
       ConnectedToGameserver \<mapsto> [Joined])"

text \<open>\<^verbatim>\<open>LoadBalancingClient.addActor\<close>: \<^verbatim>\<open>this.actors[a.actorNr] = a\<close>.\<close>

definition addActor :: "actor \<Rightarrow> client \<Rightarrow> client" where
  "addActor a c = c\<lparr>actors := obj_set (actors c) (to_String (actorNr a)) a\<rparr>"

text \<open>The constructor \<^verbatim>\<open>LoadBalancingClient(masterServerAddress, appId, appVersion)\<close>.\<close>

definition new_LoadBalancingClient :: "string \<Rightarrow> client" where
  "new_LoadBalancingClient addr =
     addActor (actorFactoryInternal (JStr []) (JNum (Fin (- 1))) True)
       \<lparr>masterServerAddress = addr, keepMasterConnection = False, reconnectPending = False,
        roomInfos = [], actors = [], state = Uninitialized,
        validNextState = initValidNextState Map.empty,
        currentRoom = new_RoomInfo [],
        myActor = actorFactoryInternal (JStr []) (JNum (Fin (- 1))) True,
        masterPeer = None\<rparr>"

text \<open>
  \<^verbatim>\<open>LoadBalancingClient.changeState\<close>; the hook \<^verbatim>\<open>onStateChange\<close> does nothing unless an
  application overrides it, as do the other hooks (\<^verbatim>\<open>onJoinRoom\<close>, \<^verbatim>\<open>onOperationResponse\<close>).
\<close>

definition changeState :: "state \<Rightarrow> client \<Rightarrow> client" where
  "changeState nextState c = c\<lparr>state := nextState\<rparr>"

text \<open>
  \<^verbatim>\<open>LoadBalancingClient.checkNextState(nextState, dontThrow)\<close>. \<^verbatim>\<open>res\<close> is \<^verbatim>\<open>undefined\<close> when
  the table has no entry for the state, and a boolean otherwise.
\<close>

definition checkNextState :: "state \<Rightarrow> bool \<Rightarrow> client \<Rightarrow> (error + jsval) \<times> client" where
  "checkNextState nextState dontThrow c =
     (let res = (case validNextState c (state c) of
                   None \<Rightarrow> JUndefined
                 | Some valid \<Rightarrow> JBool (nextState \<in> set valid))
      in if truthy res \<or> dontThrow then (Inr res, c)
         else (Inl (CheckNextStateFail (state c) nextState), c))"

text \<open>
  \<^verbatim>\<open>LoadBalancingClient.initMasterPeer\<close> registers the listeners of the master peer: seven for
  the peer status, two for events and five for operation responses.
\<close>

definition initMasterPeer :: "peer \<Rightarrow> peer" where
  "initMasterPeer mp =
     (addResponseListener 225 \<circ> addResponseListener 226 \<circ> addResponseListener 227 \<circ>
      addResponseListener 229 \<circ> addResponseListener 230 \<circ>
      addEventListener 229 \<circ> addEventListener 230 \<circ>
      addPeerStatusListener ''connectClosed'' \<circ> addPeerStatusListener ''disconnect'' \<circ>
      addPeerStatusListener ''connect'' \<circ> addPeerStatusListener ''connecting'' \<circ>
      addPeerStatusListener ''timeout'' \<circ> addPeerStatusListener ''connectFailed'' \<circ>
      addPeerStatusListener ''error'') mp"

text \<open>\<^verbatim>\<open>LoadBalancingClient.connect(keepMasterConnection)\<close>\<close>

definition connect :: "bool \<Rightarrow> client \<Rightarrow> (error + bool) \<times> client" where
  "connect keepMaster c0 =
     (let c1 = c0\<lparr>reconnectPending := False\<rparr>
      in case checkNextState ConnectingToMasterserver False c1 of
           (Inl err, c2) \<Rightarrow> (Inl err, c2)
         | (Inr res, c2) \<Rightarrow>
             if truthy res
             then let c3 = changeState ConnectingToMasterserver c2;
                      c4 = c3\<lparr>keepMasterConnection := keepMaster\<rparr>;
                      c5 = c4\<lparr>masterPeer := Some (new_PhotonPeer (''ws://'' @ masterServerAddress c4) [])\<rparr>;
                      c6 = c5\<lparr>masterPeer := map_option initMasterPeer (masterPeer c5)\<rparr>;
                      c7 = c6\<lparr>masterPeer := map_option peer_connect (masterPeer c6)\<rparr>
                  in (Inr True, c7)
             else (Inr False, c2))"

section \<open>LoadBalancingClient: the room list\<close>

text \<open>
  The listener of the event \<^verbatim>\<open>GameListUpdate\<close> that \<^verbatim>\<open>initMasterPeer\<close> registers. \<open>gameList\<close>
  is the object \<^verbatim>\<open>data.vals[ParameterCode.GameList]\<close>: the room names in enumeration order,
  each with the object of its properties. One round of the loop: \<^verbatim>\<open>exist\<close> are the rooms of
  that name; the first of them is updated where it stands in \<^verbatim>\<open>roomInfos\<close>, and a name that
  is not there makes a new room, which is appended and reported as added. The lists of the
  callback hold the rooms as they are after their update; a name comes once in \<open>gameList\<close>,
  so no room of these lists is updated again.
\<close>

fun replace_first :: "('a \<Rightarrow> bool) \<Rightarrow> 'a \<Rightarrow> 'a list \<Rightarrow> 'a list" where
  "replace_first P y [] = []"
| "replace_first P y (x # xs) = (if P x then y # xs else x # replace_first P y xs)"

definition gameListUpdate_step ::
  "string \<times> jsval obj \<Rightarrow> roomInfo list \<times> roomInfo list \<times> roomInfo list \<times> roomInfo list
     \<Rightarrow> roomInfo list \<times> roomInfo list \<times> roomInfo list \<times> roomInfo list" where
  "gameListUpdate_step = (\<lambda>(g, props) (infos, roomsUpdated, roomsAdded, roomsRemoved).
     let exist = filter (\<lambda>x. name x = g) infos
     in if length exist > 0
        then let r = fst (updateFromProps (Some props) None (exist ! 0));
                 infos' = replace_first (\<lambda>x. name x = g) r infos
             in if truthy (removed r)
                then (infos', roomsUpdated, roomsAdded, roomsRemoved @ [r])
                else (infos', roomsUpdated @ [r], roomsAdded, roomsRemoved)
        else let r = fst (updateFromProps (Some props) None (new_RoomInfo g))
             in (infos @ [r], roomsUpdated, roomsAdded @ [r], roomsRemoved))"

text \<open>
  The listener: the result is the client and the four arguments of \<^verbatim>\<open>onRoomListUpdate\<close>
  (the rooms, those updated, those added, those removed).
\<close>

definition onGameListUpdate ::
  "(string \<times> jsval obj) list \<Rightarrow> client
     \<Rightarrow> client \<times> (roomInfo list \<times> roomInfo list \<times> roomInfo list \<times> roomInfo list)" where
  "onGameListUpdate gameList c =
     (let (infos, roomsUpdated, roomsAdded, roomsRemoved) =
            foldl (\<lambda>acc entry. gameListUpdate_step entry acc) (roomInfos c, [], [], []) gameList;
          infos' = filter (\<lambda>x. \<not> truthy (removed x)) infos
      in (c\<lparr>roomInfos := infos'\<rparr>, (infos', roomsUpdated, roomsAdded, roomsRemoved)))"

section \<open>LoadBalancingClient: the responses of the game peer\<close>


text \<open>
  One round of the loop over \<^verbatim>\<open>actorList\<close>: the actor made for the key \<open>k\<close> and the object of
  its properties, and its entry in \<open>actors\<close>.
\<close>

definition listed_actor :: "string \<Rightarrow> jsval obj \<Rightarrow> actor" where
  "listed_actor k props =
     updateCustomProperties props
       (actorFactoryInternal (obj_get props ActorProperties_PlayerName) (JNum (parseInt k)) False)"

definition add_listed_actor :: "client \<Rightarrow> string \<times> jsval obj \<Rightarrow> client" where
  "add_listed_actor c = (\<lambda>(k, props). addActor (listed_actor k props) c)"


section \<open>The room list of the example\<close>

text \<open>
  A new client that has received the rooms \<open>A\<close> with \<open>p = 1\<close> and \<open>B\<close> with \<open>p = 2\<close>, and the
  update batch \<^verbatim>\<open>{A: {p: 5}, C: {p: 1, 251: true}, D: {p: 3}}\<close>, where 251 is the code of the
  property \<^verbatim>\<open>removed\<close>; each object is listed in its enumeration order.
\<close>

definition example_client :: client where
  "example_client =
     fst (onGameListUpdate
            [(''A'', [(''p'', JNum (Fin 1))]), (''B'', [(''p'', JNum (Fin 2))])]
            (new_LoadBalancingClient ''master:9090''))"

definition example_batch :: "(string \<times> jsval obj) list" where
  "example_batch =
     [(''A'', [(''p'', JNum (Fin 5))]),
      (''C'', [(''251'', JBool True), (''p'', JNum (Fin 1))]),
      (''D'', [(''p'', JNum (Fin 3))])]"

section \<open>Properties of numbers and their strings\<close>

lemma digit_char_is_digit: "d < 10 \<Longrightarrow> is_digit (digit_char d)"
proof -
  assume "d < 10"
  then have "d \<in> {0,1,2,3,4,5,6,7,8,9}" by auto
  then show ?thesis by (auto simp: digit_char_def is_digit_def)
qed

lemma digit_val_digit_char: "d < 10 \<Longrightarrow> digit_val (digit_char d) = d"
proof -
  assume "d < 10"
  then have "d \<in> {0,1,2,3,4,5,6,7,8,9}" by auto
  then show ?thesis by (auto simp: digit_char_def digit_val_def)
qed

lemma digits10_all_digits: "\<forall>c\<in>set (digits10 n). is_digit c"
proof (induction n rule: digits10.induct)
  case (1 n)
  show ?case
  proof (cases "n < 10")
    case True
    then show ?thesis by (subst digits10.simps) (simp add: digit_char_is_digit)
  next
    case False
    then show ?thesis using 1 by (subst digits10.simps) (auto simp: digit_char_is_digit)
  qed
qed

lemma dec_val_snoc: "dec_val (s @ [c]) = 10 * dec_val s + digit_val c"
  by (simp add: dec_val_def)

lemma dec_val_digits10: "dec_val (digits10 n) = n"
proof (induction n rule: digits10.induct)
  case (1 n)
  show ?case
  proof (cases "n < 10")
    case True
    then show ?thesis by (subst digits10.simps) (simp add: dec_val_def digit_val_digit_char)
  next
    case False
    then show ?thesis using 1
      by (subst digits10.simps) (simp add: dec_val_snoc digit_val_digit_char)
  qed
qed

lemma pos_toString_small: "m < 2 ^ 53 \<Longrightarrow> pos_toString m = digits10 m"
  by (simp add: pos_toString_def)

lemmas js_eval = pos_toString_small digits10.simps digit_char_def

lemma digits10_nonempty: "digits10 n \<noteq> []"
  by (subst digits10.simps) simp

lemma is_digit_not_other:
  "is_digit c \<Longrightarrow> \<not> is_space c \<and> c \<noteq> CHR ''+'' \<and> c \<noteq> CHR ''-'' \<and> c \<noteq> CHR ''x'' \<and> c \<noteq> CHR ''X''
     \<and> c \<noteq> CHR ''_''"
  by (auto simp: is_digit_def is_space_def)

lemma hd_digits10: "is_digit (hd (digits10 n))"
  using digits10_all_digits [of n] digits10_nonempty [of n] by (cases "digits10 n") auto

lemma take2_digits10: "take 2 (digits10 n) \<noteq> ''0x'' \<and> take 2 (digits10 n) \<noteq> ''0X''"
proof -
  have "c \<noteq> CHR ''x'' \<and> c \<noteq> CHR ''X''" if "c \<in> set (take 2 (digits10 n))" for c
    using that digits10_all_digits [of n] is_digit_not_other [of c] by (auto dest: in_set_takeD)
  then show ?thesis by (metis list.set_intros(1,2))
qed

lemma to_double_small: "m < 2 ^ 53 \<Longrightarrow> to_double neg m = Fin (if neg then - int m else int m)"
proof -
  assume a: "m < 2 ^ 53"
  have "(2::nat) ^ 53 \<le> 2 ^ 1024" by (rule power_increasing) simp_all
  with a have "\<not> 2 ^ 1024 \<le> m" by linarith
  with a show ?thesis by (simp add: to_double_def round_double_def)
qed

text \<open>The decimal string of a natural number below \<open>2 ^ 53\<close> is the string of its own number.\<close>

lemma parseInt_digits10: "n < 2 ^ 53 \<Longrightarrow> parseInt (digits10 n) = Fin (int n)"
proof -
  assume n: "n < 2 ^ 53"
  let ?ds = "digits10 n"
  have hd: "\<not> is_space (hd ?ds)" "hd ?ds \<noteq> CHR ''+''" "hd ?ds \<noteq> CHR ''-''"
    using is_digit_not_other [OF hd_digits10 [of n]] by simp_all
  have dw: "dropWhile is_space ?ds = ?ds"
    using hd(1) digits10_nonempty [of n] by (cases ?ds) simp_all
  have tw: "takeWhile is_digit ?ds = ?ds"
    using digits10_all_digits [of n] by (simp add: takeWhile_eq_all_conv)
  show ?thesis
    using hd take2_digits10 [of n] digits10_nonempty [of n] n
    by (simp add: parseInt_def dw tw Let_def dec_val_digits10 to_double_small)
qed

lemma numToString_parseInt_digits10: "n < 2 ^ 53 \<Longrightarrow> numToString (parseInt (digits10 n)) = digits10 n"
  by (simp add: parseInt_digits10 pos_toString_small)



section \<open>Properties of the framing\<close>

lemma scan_number_digits:
  "\<forall>c\<in>set ds. is_digit c \<Longrightarrow> \<not> is_numchar c' \<Longrightarrow>
   scan_number (ds @ c' # rest) number = (number @ ds, True)"
  by (induction ds arbitrary: number) (auto simp: is_numchar_def)

lemma tilde_not_numchar: "\<not> is_numchar CHR ''~''"
  by (simp add: is_numchar_def is_digit_def is_space_def)

lemma length_frame: "length frame = 3"
  by (simp add: frame_def)

lemma take_frame: "take 3 (frame @ rest) = frame"
  by (simp add: frame_def)

lemma drop_frame: "drop 3 (frame @ rest) = rest"
  by (simp add: frame_def)

lemma scan_number_length:
  "scan_number (digits10 n @ frame @ rest) [] = (digits10 n, True)"
  using scan_number_digits [OF digits10_all_digits tilde_not_numchar, of n "''m~'' @ rest" "[]"]
  by (simp add: frame_def)

text \<open>One round of the loop of \<open>decode\<close> on a well-formed frame takes exactly the message.\<close>

lemma decode_loop_frame:
  "decode_loop (frame @ digits10 (length m) @ frame @ m @ rest) messages =
     (if rest \<noteq> [] then decode_loop rest (messages @ [m]) else messages @ [m])"
  by (subst decode_loop.simps)
     (simp add: scan_number_length dec_val_digits10 length_frame take_frame drop_frame)

lemma decode_loop_Nil: "decode_loop [] messages = messages"
  by (subst decode_loop.simps) (simp add: frame_def)

lemma encode_loop_acc: "encode_loop ms ret = ret @ encode_loop ms []"
proof (induction ms arbitrary: ret)
  case Nil
  show ?case by simp
next
  case (Cons m ms)
  show ?case
    by (simp add: Let_def Cons.IH [of "ret @ _"] Cons.IH [of "frame @ _"])
qed

lemma encode_loop_Cons:
  "encode_loop (m # ms) [] =
     frame @ digits10 (length (message_text m)) @ frame @ message_text m @ encode_loop ms []"
proof -
  have "encode_loop (m # ms) [] =
          encode_loop ms (frame @ digits10 (length (message_text m)) @ frame @ message_text m)"
    by (simp add: message_text_def Let_def)
  then show ?thesis
    by (simp add: encode_loop_acc [of ms "frame @ _"])
qed

lemma encode_loop_Nil_iff: "encode_loop ms [] = [] \<longleftrightarrow> ms = []"
  by (cases ms) (simp_all add: encode_loop_Cons frame_def del: encode_loop.simps(2))

lemma decode_encode_loop:
  "decode_loop (encode_loop ms []) messages = messages @ map message_text ms"
proof (induction ms arbitrary: messages)
  case Nil
  show ?case by (simp add: decode_loop_Nil)
next
  case (Cons m ms)
  show ?case
    by (simp add: encode_loop_Cons decode_loop_frame Cons.IH encode_loop_Nil_iff
          del: encode_loop.simps(2))
qed

lemma digits10_no_NUL: "CHR 0x00 \<notin> set (digits10 n)"
  using digits10_all_digits [of n] by (auto simp: is_digit_def)

lemma encode_loop_no_NUL:
  "\<forall>m\<in>set ms. CHR 0x00 \<notin> set (message_text m) \<Longrightarrow> CHR 0x00 \<notin> set (encode_loop ms [])"
  by (induction ms) (auto simp: encode_loop_Cons digits10_no_NUL frame_def simp del: encode_loop.simps(2))

lemma join_no_NUL:
  "CHR 0x00 \<notin> set sep \<Longrightarrow> \<forall>x\<in>set xs. CHR 0x00 \<notin> set x \<Longrightarrow> CHR 0x00 \<notin> set (join sep xs)"
  by (induction sep xs rule: join.induct) auto

lemma is_digit_not_NUL: "is_digit c \<Longrightarrow> c \<noteq> CHR 0x00"
  by (auto simp: is_digit_def)

lemma pos_toString_no_NUL: "CHR 0x00 \<notin> set (pos_toString m)"
proof -
  have d: "CHR 0x00 \<notin> set (digits10 n)" for n
    using digits10_all_digits [of n] is_digit_not_NUL by blast
  have hd: "hd (digits10 n) \<noteq> CHR 0x00" for n
    using hd_digits10 [of n] is_digit_not_NUL by blast
  have sig: "CHR 0x00 \<notin> set (tl (rev (dropWhile (\<lambda>c. c = CHR ''0'') (rev (digits10 n)))))" for n
  proof
    assume "CHR 0x00 \<in> set (tl (rev (dropWhile (\<lambda>c. c = CHR ''0'') (rev (digits10 n)))))"
    then have "CHR 0x00 \<in> set (rev (dropWhile (\<lambda>c. c = CHR ''0'') (rev (digits10 n))))"
      by (metis list.sel(2) list.set_sel(2))
    then have "CHR 0x00 \<in> set (rev (digits10 n))"
      by (auto dest: set_dropWhileD)
    with d [of n] show False by simp
  qed
  show ?thesis
    using hd [of m] hd [of "shortest_decimal m"]
    by (auto simp add: pos_toString_def Let_def d sig)
qed

lemma numToString_no_NUL: "CHR 0x00 \<notin> set (numToString x)"
  by (cases x) (simp_all add: pos_toString_no_NUL)

lemma digit_char_not_NUL: "d < 16 \<Longrightarrow> digit_char d \<noteq> CHR 0x00"
proof -
  assume "d < 16"
  then have "''0123456789abcdef'' ! d \<in> set ''0123456789abcdef''"
    by (intro nth_mem) simp
  then show ?thesis unfolding digit_char_def by auto
qed

lemma JSON_quote_char_no_NUL: "CHR 0x00 \<notin> set (JSON_quote_char c)"
proof (cases "(of_char c :: nat) < 32")
  case True
  then have "(of_char c :: nat) div 16 < 16" and "(of_char c :: nat) mod 16 < 16" by simp_all
  then show ?thesis
    using True digit_char_not_NUL [of "of_char c div 16"] digit_char_not_NUL [of "of_char c mod 16"]
    by (auto simp: JSON_quote_char_def)
next
  case False
  then have "c \<noteq> CHR 0x00" by auto
  then show ?thesis using False by (auto simp: JSON_quote_char_def)
qed

lemma JSON_quote_no_NUL: "CHR 0x00 \<notin> set (JSON_quote s)"
  by (auto simp: JSON_quote_def JSON_quote_char_no_NUL)

text \<open>The JSON text of a value never holds a NUL character: in a string it is escaped.\<close>

lemma JSON_stringify_no_NUL: "CHR 0x00 \<notin> set (JSON_stringify v)"
proof (induction v)
  case (JNum n)
  show ?case by (cases n) (simp_all add: pos_toString_no_NUL)
next
  case (JStr s)
  show ?case by (simp add: JSON_quote_no_NUL)
next
  case (JArr xs)
  have "CHR 0x00 \<notin> set (join '','' (map (\<lambda>x. if x = JUndefined then ''null'' else JSON_stringify x) xs))"
    using JArr by (intro join_no_NUL) auto
  then show ?case by simp
next
  case (JObj ps)
  have "CHR 0x00 \<notin> set (join '',''
      (concat (map (\<lambda>(k, v). if v = JUndefined then [] else [JSON_quote k @ '':'' @ JSON_stringify v]) ps)))"
  proof (intro join_no_NUL)
    show "CHR 0x00 \<notin> set '',''" by simp
    show "\<forall>x\<in>set (concat (map (\<lambda>(k, v). if v = JUndefined then []
              else [JSON_quote k @ '':'' @ JSON_stringify v]) ps)). CHR 0x00 \<notin> set x"
    proof
      fix x
      assume "x \<in> set (concat (map (\<lambda>(k, v). if v = JUndefined then []
              else [JSON_quote k @ '':'' @ JSON_stringify v]) ps))"
      then obtain k v where kv: "(k, v) \<in> set ps" and x: "x = JSON_quote k @ '':'' @ JSON_stringify v"
        by (auto split: if_splits)
      have "CHR 0x00 \<notin> set (JSON_stringify v)"
        using JObj kv by (auto simp: snds.simps)
      then show "CHR 0x00 \<notin> set x" by (simp add: x JSON_quote_no_NUL)
    qed
  qed
  then show ?case by simp
qed simp_all

text \<open>
  So only a string message (or an array that holds one) can put a NUL character on the wire.
\<close>

lemma message_text_no_NUL:
  "CHR 0x00 \<notin> set (message_text (JObj ps))"
  "CHR 0x00 \<notin> set (message_text JNull)"
  "CHR 0x00 \<notin> set (message_text JUndefined)"
  "CHR 0x00 \<notin> set (message_text (JNum n))"
  "CHR 0x00 \<notin> set (message_text (JBool b))"
  using JSON_stringify_no_NUL [of "JObj ps"]
  by (simp_all add: message_text_def numToString_no_NUL)

text \<open>
  Claim C2, as amended. \<open>decode\<close> gives back the texts of the messages, in order, when no
  text holds a NUL character: a string message comes back as it was, a plain object as the
  string \<^verbatim>\<open>~j~\<close> followed by its JSON text, \<^verbatim>\<open>null\<close> and \<^verbatim>\<open>undefined\<close> as the empty
  string. In particular a sequence of strings without NUL characters is decoded to itself.
\<close>

theorem decode_encode:
  "\<forall>m\<in>set ms. CHR 0x00 \<notin> set (message_text m) \<Longrightarrow>
   decode (encode (JArr ms)) = map message_text ms \<and>
   (\<forall>ss. ms = map JStr ss \<longrightarrow> decode (encode (JArr ms)) = ss)"
proof -
  assume a: "\<forall>m\<in>set ms. CHR 0x00 \<notin> set (message_text m)"
  have 1: "decode (encode (JArr ms)) = map message_text ms"
    using encode_loop_no_NUL [OF a] by (simp add: decode_def encode_def decode_encode_loop)
  have "decode (encode (JArr ms)) = ss" if "ms = map JStr ss" for ss
    using 1 that by (simp add: message_text_def comp_def)
  with 1 show ?thesis by blast
qed

theorem decode_encode_witness:
  "CHR 0x00 \<notin> set (message_text (JStr ''hello'')) \<and>
   CHR 0x00 \<notin> set (message_text (JObj [(''a'', JNum (Fin 1))])) \<and>
   CHR 0x00 \<notin> set (message_text JNull) \<and>
   decode (encode (JArr [JStr ''hello'', JObj [(''a'', JNum (Fin 1))], JNull]))
     = [''hello'', ''~j~{'' @ [CHR 0x22] @ ''a'' @ [CHR 0x22] @ '':1}'', '''']"
proof -
  have t: "message_text (JStr ''hello'') = ''hello''"
    "message_text (JObj [(''a'', JNum (Fin 1))]) = ''~j~{'' @ [CHR 0x22] @ ''a'' @ [CHR 0x22] @ '':1}''"
    "message_text JNull = []"
    by (simp_all add: message_text_def JSON_quote_def JSON_quote_char_def pos_toString_def digits10.simps digit_char_def)
  show ?thesis
    using decode_encode [of "[JStr ''hello'', JObj [(''a'', JNum (Fin 1))], JNull]"]
    by (simp add: t)
qed

text \<open>
  The claim as stated fails on a message that holds a NUL character: the one-character
  string is decoded to another string.
\<close>

theorem decode_encode_counterexample:
  "decode (encode (JArr [JStr [CHR 0x00]])) \<noteq> [[CHR 0x00]]"
  by code_simp

section \<open>Properties of the values array\<close>

lemma update_fresh: "k \<notin> fst ` set al \<Longrightarrow> AList.update k v al = al @ [(k, v)]"
  by (induction al) auto

lemma parse_loop_distinct:
  "length xs mod 2 = 0 \<Longrightarrow> distinct (map fst (key_value_pairs xs)) \<Longrightarrow>
   ''__proto__'' \<notin> set (map fst (key_value_pairs xs)) \<Longrightarrow>
   set (map fst acc) \<inter> set (map fst (key_value_pairs xs)) = {} \<Longrightarrow>
   parseMessageValuesArrayToJSON_loop xs acc = acc @ key_value_pairs xs"
proof (induction xs acc rule: parseMessageValuesArrayToJSON_loop.induct)
  case (1 parsedJSON)
  show ?case by simp
next
  case (2 k parsedJSON)
  then show ?case by simp
next
  case (3 k v toParse parsedJSON)
  have fresh: "to_String k \<notin> fst ` set parsedJSON" using 3(5) by auto
  have set: "obj_set parsedJSON (to_String k) v = parsedJSON @ [(to_String k, v)]"
    using 3(4) fresh by (auto simp: obj_set_def update_fresh)
  have "parseMessageValuesArrayToJSON_loop toParse (parsedJSON @ [(to_String k, v)])
          = (parsedJSON @ [(to_String k, v)]) @ key_value_pairs toParse"
    using 3(2,3,4,5) by (intro 3(1) [unfolded set]) auto
  then show ?case by (simp add: set)
qed

text \<open>
  Claim C5, as amended. An array of odd length is refused. For an array of even length
  whose keys have pairwise distinct strings, none of them \<^verbatim>\<open>__proto__\<close>, the result holds
  exactly the pairs of the array: the string of each key with the element that follows it.
\<close>

theorem parseMessageValuesArrayToJSON_pairs:
  "(length xs mod 2 \<noteq> 0 \<longrightarrow> parseMessageValuesArrayToJSON (JArr xs) = Inl InvalidValuesArray) \<and>
   (length xs mod 2 = 0 \<and> distinct (map fst (key_value_pairs xs)) \<and>
    ''__proto__'' \<notin> set (map fst (key_value_pairs xs)) \<longrightarrow>
      parseMessageValuesArrayToJSON (JArr xs) = Inr (key_value_pairs xs))"
  using parse_loop_distinct [of xs "[]"] by (simp add: parseMessageValuesArrayToJSON_def)

theorem parseMessageValuesArrayToJSON_pairs_witness:
  "length [JNum (Fin 255)] mod 2 \<noteq> 0 \<and>
   parseMessageValuesArrayToJSON (JArr [JNum (Fin 255)]) = Inl InvalidValuesArray \<and>
   length [JNum (Fin 255), JStr ''lobby'', JNum (Fin 250), JBool True] mod 2 = 0 \<and>
   parseMessageValuesArrayToJSON (JArr [JNum (Fin 255), JStr ''lobby'', JNum (Fin 250), JBool True])
     = Inr [(''255'', JStr ''lobby''), (''250'', JBool True)]"
  using parseMessageValuesArrayToJSON_pairs [of "[JNum (Fin 255)]"]
    parseMessageValuesArrayToJSON_pairs [of "[JNum (Fin 255), JStr ''lobby'', JNum (Fin 250), JBool True]"]
  by (simp add: js_eval)

text \<open>
  The claim as stated fails: the key is made a string, so two different arrays of even
  length, each with unique keys, have the same mapping, and no flattening gives both back.
\<close>

theorem parseMessageValuesArrayToJSON_counterexample:
  "length [JNum (Fin 1), JStr ''x''] mod 2 = 0 \<and> distinct (keys_at_even [JNum (Fin 1), JStr ''x'']) \<and>
   length [JStr ''1'', JStr ''x''] mod 2 = 0 \<and> distinct (keys_at_even [JStr ''1'', JStr ''x'']) \<and>
   [JNum (Fin 1), JStr ''x''] \<noteq> [JStr ''1'', JStr ''x''] \<and>
   parseMessageValuesArrayToJSON (JArr [JNum (Fin 1), JStr ''x''])
     = parseMessageValuesArrayToJSON (JArr [JStr ''1'', JStr ''x''])"
  by (simp add: parseMessageValuesArrayToJSON_def obj_set_def js_eval)

section \<open>Properties of sending\<close>

lemma resetKeepAlive_fields:
  "socket_sent (fst (resetKeepAlive (p, e))) = socket_sent p"
  "isConnected (fst (resetKeepAlive (p, e))) = isConnected p"
  "isClosing (fst (resetKeepAlive (p, e))) = isClosing p"
  "keepAliveTimeoutMs (fst (resetKeepAlive (p, e))) = keepAliveTimeoutMs p"
  by (simp_all add: resetKeepAlive_def setTimeout_def Let_def split: prod.splits)

lemma send_ok:
  "isConnected p \<Longrightarrow> \<not> isClosing p \<Longrightarrow>
   send data cc (p, e) =
     (Inr (), ((fst (resetKeepAlive (p, e)))\<lparr>socket_sent := socket_sent p @ [encode data]\<rparr>,
               snd (resetKeepAlive (p, e))))"
proof -
  obtain p1 e1 where r: "resetKeepAlive (p, e) = (p1, e1)" by (cases "resetKeepAlive (p, e)")
  have "socket_sent p1 = socket_sent p" using resetKeepAlive_fields(1) [of p e] by (simp add: r)
  then show ?thesis if "isConnected p" "\<not> isClosing p"
    using that by (simp add: send_def Let_def r)
qed

lemma send_not_ok:
  "\<not> isConnected p \<or> isClosing p \<Longrightarrow>
   send data cc (p, e) = (if cc then Inr () else Inl SendFailed, (p, e))"
  by (auto simp: send_def Let_def)

text \<open>
  Claim C6. \<open>sendOperation\<close> refuses data that is neither an array nor \<^verbatim>\<open>undefined\<close>; with
  an array or no data it throws on a peer that is not connected or is closing, leaving the
  peer as it was; on a connected peer that is not closing it resets the keep-alive timer and
  hands the encoded request \<^verbatim>\<open>{req: code, vals: data or []}\<close> to the socket. The keep-alive
  callback sends with the relaxed flag and never throws.
\<close>

theorem sendOperation_cases:
  "(\<not> isArray data \<and> data \<noteq> JUndefined \<longrightarrow>
      sendOperation code data (p, e) = (Inl SendNonArrayData, (p, e))) \<and>
   ((isArray data \<or> data = JUndefined) \<and> (\<not> isConnected p \<or> isClosing p) \<longrightarrow>
      sendOperation code data (p, e) = (Inl SendFailed, (p, e))) \<and>
   ((isArray data \<or> data = JUndefined) \<and> isConnected p \<and> \<not> isClosing p \<longrightarrow>
      sendOperation code data (p, e) =
        (Inr (), ((fst (resetKeepAlive (p, e)))
                    \<lparr>socket_sent := socket_sent p @
                       [encode (JObj [(''req'', code),
                                      (''vals'', if data = JUndefined then JArr [] else data)])]\<rparr>,
                  snd (resetKeepAlive (p, e))))) \<and>
   fst (keepAlive_callback (p, e)) = Inr ()"
proof -
  have 1: "\<not> isArray data \<and> data \<noteq> JUndefined \<longrightarrow>
      sendOperation code data (p, e) = (Inl SendNonArrayData, (p, e))"
    by (simp add: sendOperation_def)
  have 2: "(isArray data \<or> data = JUndefined) \<and> (\<not> isConnected p \<or> isClosing p) \<longrightarrow>
      sendOperation code data (p, e) = (Inl SendFailed, (p, e))"
    by (auto simp: sendOperation_def send_not_ok)
  have 3: "(isArray data \<or> data = JUndefined) \<and> isConnected p \<and> \<not> isClosing p \<longrightarrow>
      sendOperation code data (p, e) =
        (Inr (), ((fst (resetKeepAlive (p, e)))
                    \<lparr>socket_sent := socket_sent p @
                       [encode (JObj [(''req'', code),
                                      (''vals'', if data = JUndefined then JArr [] else data)])]\<rparr>,
                  snd (resetKeepAlive (p, e))))"
    by (auto simp: sendOperation_def send_ok)
  have 4: "fst (keepAlive_callback (p, e)) = Inr ()"
    by (cases "isConnected p \<and> \<not> isClosing p")
       (auto simp: keepAlive_callback_def send_ok send_not_ok)
  from 1 2 3 4 show ?thesis by blast
qed


theorem sendOperation_cases_witness:
  "\<not> isArray (JStr ''x'') \<and> JStr ''x'' \<noteq> JUndefined \<and>
   sendOperation (JNum (Fin 230)) (JStr ''x'') (onConnect (peer_connect (new_PhotonPeer ''ws://h:9090'' [])), new_env 0)
     = (Inl SendNonArrayData, (onConnect (peer_connect (new_PhotonPeer ''ws://h:9090'' [])), new_env 0)) \<and>
   isArray (JArr []) \<and> \<not> isConnected (new_PhotonPeer ''ws://h:9090'' []) \<and>
   sendOperation (JNum (Fin 230)) (JArr []) (new_PhotonPeer ''ws://h:9090'' [], new_env 0)
     = (Inl SendFailed, (new_PhotonPeer ''ws://h:9090'' [], new_env 0)) \<and>
   isConnected (onConnect (peer_connect (new_PhotonPeer ''ws://h:9090'' []))) \<and>
   \<not> isClosing (onConnect (peer_connect (new_PhotonPeer ''ws://h:9090'' []))) \<and>
   socket_sent (fst (snd (sendOperation (JNum (Fin 230)) JUndefined
       (onConnect (peer_connect (new_PhotonPeer ''ws://h:9090'' [])), new_env 0))))
     = [encode (JObj [(''req'', JNum (Fin 230)), (''vals'', JArr [])])]"
  using sendOperation_cases [of "JStr ''x''" "JNum (Fin 230)"
      "onConnect (peer_connect (new_PhotonPeer ''ws://h:9090'' []))" "new_env 0"]
    sendOperation_cases [of "JArr []" "JNum (Fin 230)" "new_PhotonPeer ''ws://h:9090'' []" "new_env 0"]
    sendOperation_cases [of JUndefined "JNum (Fin 230)"
      "onConnect (peer_connect (new_PhotonPeer ''ws://h:9090'' []))" "new_env 0"]
  by (simp add: new_PhotonPeer_def onConnect_def peer_connect_def)

section \<open>Properties of LitePeer.join\<close>

text \<open>
  Claim C7, as amended. \<open>lite_join\<close> throws when the room name is \<^verbatim>\<open>undefined\<close>, when a
  room is joined already, when the peer is not connected, and also when the peer is connected
  but closing (the error of \<open>send\<close>); each time the peer is left as it was. Otherwise it
  hands exactly one encoded Join request to the socket, whose parameters are the room id as a
  string, the room and actor properties where \<^verbatim>\<open>typeof\<close> gives \<^verbatim>\<open>object\<close>, and the
  broadcast flag, \<^verbatim>\<open>false\<close> when the argument is absent.
\<close>

theorem lite_join_cases:
  "(rn = JUndefined \<longrightarrow> lite_join rn rp ap bc (p, e) = (Inl JoinUndefinedRoomName, (p, e))) \<and>
   (rn \<noteq> JUndefined \<and> isJoined p \<longrightarrow> lite_join rn rp ap bc (p, e) = (Inl JoinAlreadyJoined, (p, e))) \<and>
   (rn \<noteq> JUndefined \<and> \<not> isJoined p \<and> \<not> isConnected p \<longrightarrow>
      lite_join rn rp ap bc (p, e) = (Inl JoinNotConnected, (p, e))) \<and>
   (rn \<noteq> JUndefined \<and> \<not> isJoined p \<and> isConnected p \<and> isClosing p \<longrightarrow>
      lite_join rn rp ap bc (p, e) = (Inl SendFailed, (p, e))) \<and>
   (rn \<noteq> JUndefined \<and> \<not> isJoined p \<and> isConnected p \<and> \<not> isClosing p \<longrightarrow>
      fst (lite_join rn rp ap bc (p, e)) = Inr () \<and>
      socket_sent (fst (snd (lite_join rn rp ap bc (p, e)))) =
        socket_sent p @ [encode (JObj [(''req'', LiteOpCode_Join),
                                       (''vals'', JArr (join_params rn rp ap bc))])]) \<and>
   join_params rn rp ap bc =
     [LiteOpKey_GameId, JStr (to_String rn)]
     @ (if typeof rp = ''object'' then [LiteOpKey_GameProperties, rp] else [])
     @ (if typeof ap = ''object'' then [LiteOpKey_ActorProperties, ap] else [])
     @ [LiteOpKey_Broadcast, if truthy bc then bc else JBool False] \<and>
   last (join_params rn rp ap JUndefined) = JBool False"
proof -
  have 1: "rn = JUndefined \<longrightarrow> lite_join rn rp ap bc (p, e) = (Inl JoinUndefinedRoomName, (p, e))"
    by (simp add: lite_join_def)
  have 2: "rn \<noteq> JUndefined \<and> isJoined p \<longrightarrow>
      lite_join rn rp ap bc (p, e) = (Inl JoinAlreadyJoined, (p, e))"
    by (simp add: lite_join_def)
  have 3: "rn \<noteq> JUndefined \<and> \<not> isJoined p \<and> \<not> isConnected p \<longrightarrow>
      lite_join rn rp ap bc (p, e) = (Inl JoinNotConnected, (p, e))"
    by (simp add: lite_join_def)
  have 4: "rn \<noteq> JUndefined \<and> \<not> isJoined p \<and> isConnected p \<and> isClosing p \<longrightarrow>
      lite_join rn rp ap bc (p, e) = (Inl SendFailed, (p, e))"
    by (simp add: lite_join_def sendOperation_def send_not_ok)
  have 5: "rn \<noteq> JUndefined \<and> \<not> isJoined p \<and> isConnected p \<and> \<not> isClosing p \<longrightarrow>
      fst (lite_join rn rp ap bc (p, e)) = Inr () \<and>
      socket_sent (fst (snd (lite_join rn rp ap bc (p, e)))) =
        socket_sent p @ [encode (JObj [(''req'', LiteOpCode_Join),
                                       (''vals'', JArr (join_params rn rp ap bc))])]"
    by (simp add: lite_join_def sendOperation_def send_ok)
  have 6: "last (join_params rn rp ap JUndefined) = JBool False"
    by (simp add: join_params_def)
  from 1 2 3 4 5 6 show ?thesis by (simp add: join_params_def)
qed

theorem lite_join_cases_witness:
  "lite_join JUndefined JUndefined JUndefined JUndefined (new_LitePeer ''ws://h:9090'' [], new_env 0)
     = (Inl JoinUndefinedRoomName, (new_LitePeer ''ws://h:9090'' [], new_env 0)) \<and>
   JStr ''lobby'' \<noteq> JUndefined \<and>
   \<not> isJoined (new_LitePeer ''ws://h:9090'' []) \<and> \<not> isConnected (new_LitePeer ''ws://h:9090'' []) \<and>
   lite_join (JStr ''lobby'') JUndefined JUndefined JUndefined (new_LitePeer ''ws://h:9090'' [], new_env 0)
     = (Inl JoinNotConnected, (new_LitePeer ''ws://h:9090'' [], new_env 0)) \<and>
   isConnected (onConnect (peer_connect (new_LitePeer ''ws://h:9090'' []))) \<and>
   \<not> isClosing (onConnect (peer_connect (new_LitePeer ''ws://h:9090'' []))) \<and>
   \<not> isJoined (onConnect (peer_connect (new_LitePeer ''ws://h:9090'' []))) \<and>
   socket_sent (fst (snd (lite_join (JStr ''lobby'') JUndefined JUndefined JUndefined
       (onConnect (peer_connect (new_LitePeer ''ws://h:9090'' [])), new_env 0))))
     = [encode (JObj [(''req'', JNum (Fin 255)),
                      (''vals'', JArr [JNum (Fin 255), JStr ''lobby'', JNum (Fin 250), JBool False])])]"
  using lite_join_cases [of JUndefined JUndefined JUndefined JUndefined
      "new_LitePeer ''ws://h:9090'' []" "new_env 0"]
    lite_join_cases [of "JStr ''lobby''" JUndefined JUndefined JUndefined
      "new_LitePeer ''ws://h:9090'' []" "new_env 0"]
    lite_join_cases [of "JStr ''lobby''" JUndefined JUndefined JUndefined
      "onConnect (peer_connect (new_LitePeer ''ws://h:9090'' []))" "new_env 0"]
  by (simp add: new_LitePeer_def onConnect_def peer_connect_def join_params_def
        LiteOpKey_GameId_def LiteOpKey_Broadcast_def LiteOpCode_Join_def)

text \<open>
  The claim as stated fails on a peer that is connected and closing (\<open>peer_disconnect\<close> has
  run, the socket has not closed yet): the room name is given, the peer is connected, no room
  is joined, and still the call throws and nothing is sent.
\<close>

theorem lite_join_counterexample:
  "JStr ''lobby'' \<noteq> JUndefined \<and>
   isConnected (peer_disconnect (onConnect (peer_connect (new_LitePeer ''ws://h:9090'' [])))) \<and>
   \<not> isJoined (peer_disconnect (onConnect (peer_connect (new_LitePeer ''ws://h:9090'' [])))) \<and>
   fst (lite_join (JStr ''lobby'') JUndefined JUndefined JUndefined
         (peer_disconnect (onConnect (peer_connect (new_LitePeer ''ws://h:9090'' []))), new_env 0))
     = Inl SendFailed \<and>
   socket_sent (fst (snd (lite_join (JStr ''lobby'') JUndefined JUndefined JUndefined
         (peer_disconnect (onConnect (peer_connect (new_LitePeer ''ws://h:9090'' []))), new_env 0))))
     = []"
  by (simp add: lite_join_def sendOperation_def send_def new_LitePeer_def onConnect_def
        peer_connect_def peer_disconnect_def join_params_def)

section \<open>Properties of the keep-alive timer\<close>

lemma resetKeepAlive_disabled:
  "keepAliveTimeoutMs p < 1000 \<Longrightarrow>
   resetKeepAlive (p, e) = (p, clearTimeout (keepAliveTimer p) e)"
  by (simp add: resetKeepAlive_def Let_def)

lemma resetKeepAlive_enabled:
  "keepAliveTimeoutMs p \<ge> 1000 \<Longrightarrow>
   resetKeepAlive (p, e) =
     (p\<lparr>keepAliveTimer := next_id e\<rparr>,
      e\<lparr>timeouts := filter (\<lambda>(j, due). j \<noteq> keepAliveTimer p) (timeouts e)
                       @ [(next_id e, now e + keepAliveTimeoutMs p)],
        next_id := Suc (next_id e)\<rparr>)"
  by (simp add: resetKeepAlive_def Let_def setTimeout_def clearTimeout_def)

lemma own_timers_filter:
  "own_timers (p, e) \<Longrightarrow> filter (\<lambda>(j, due). j \<noteq> keepAliveTimer p) (timeouts e) = []"
  by (auto simp: own_timers_def filter_empty_conv)

lemma send_armed:
  assumes "keepAliveTimeoutMs p \<ge> 1000" "isConnected p" "\<not> isClosing p" "own_timers (p, e)"
  shows "send data cc (p, e) =
     (Inr (), (p\<lparr>keepAliveTimer := next_id e, socket_sent := socket_sent p @ [encode data]\<rparr>,
               e\<lparr>timeouts := [(next_id e, now e + keepAliveTimeoutMs p)], next_id := Suc (next_id e)\<rparr>))"
  using assms by (simp add: send_def Let_def resetKeepAlive_enabled own_timers_filter)

lemma expire_armed:
  assumes "keepAliveTimeoutMs p \<ge> 1000" "isConnected p" "\<not> isClosing p" "armed (p, e) d" "now e \<le> d"
  shows "expire (keepAliveTimer p) (p, e) =
     (p\<lparr>keepAliveTimer := next_id e, socket_sent := socket_sent p @ [encode (keepAlive_ping d)]\<rparr>,
      e\<lparr>now := d, timeouts := [(next_id e, d + keepAliveTimeoutMs p)], next_id := Suc (next_id e)\<rparr>)"
  using assms
  by (simp add: expire_def armed_def keepAlive_callback_def send_def Let_def
        resetKeepAlive_enabled clearTimeout_def max_def)

lemma idle_armed:
  assumes "keepAliveTimeoutMs p \<ge> 1000" "isConnected p" "\<not> isClosing p" "armed (p, e) d" "now e \<le> d"
  shows "socket_sent (fst (idle n (p, e))) =
           socket_sent p @ map (\<lambda>k. encode (keepAlive_ping (d + int k * keepAliveTimeoutMs p))) [0..<n]
         \<and> armed (idle n (p, e)) (d + int n * keepAliveTimeoutMs p)"
  using assms
proof (induction n arbitrary: p e d)
  case 0
  then show ?case by simp
next
  case (Suc n)
  let ?T = "keepAliveTimeoutMs p"
  let ?p = "p\<lparr>keepAliveTimer := next_id e, socket_sent := socket_sent p @ [encode (keepAlive_ping d)]\<rparr>"
  let ?e = "e\<lparr>now := d, timeouts := [(next_id e, d + ?T)], next_id := Suc (next_id e)\<rparr>"
  have ex: "expire (keepAliveTimer p) (p, e) = (?p, ?e)"
    using Suc.prems by (rule expire_armed)
  have ih: "socket_sent (fst (idle n (?p, ?e))) =
           socket_sent ?p @ map (\<lambda>k. encode (keepAlive_ping ((d + ?T) + int k * keepAliveTimeoutMs ?p))) [0..<n]
         \<and> armed (idle n (?p, ?e)) ((d + ?T) + int n * keepAliveTimeoutMs ?p)"
    using Suc.prems by (intro Suc.IH) (simp_all add: armed_def)
  have shift: "map (\<lambda>k. encode (keepAlive_ping (d + int k * ?T))) [0..<Suc n] =
        encode (keepAlive_ping d) # map (\<lambda>k. encode (keepAlive_ping ((d + ?T) + int k * ?T))) [0..<n]"
  proof -
    have "[0..<Suc n] = 0 # map Suc [0..<n]"
      by (simp add: upt_rec [of 0 "Suc n"] map_Suc_upt del: upt_Suc)
    then show ?thesis by (simp add: comp_def algebra_simps del: upt_Suc)
  qed
  show ?case
    using ih by (simp add: ex shift algebra_simps del: upt_Suc)
qed


lemma expire_not_pending:
  "map_of (timeouts e) i = None \<Longrightarrow> expire i (p, e) = (p, e)"
  by (simp add: expire_def)

lemma expire_closed:
  assumes "\<not> isConnected p \<or> isClosing p" "armed (p, e) d"
  shows "expire (keepAliveTimer p) (p, e) = (p, e\<lparr>now := max (now e) d, timeouts := []\<rparr>)"
  using assms
  by (auto simp: expire_def armed_def keepAlive_callback_def send_def Let_def clearTimeout_def)

text \<open>
  Claim C8, as amended. No timeout is pending but the keep-alive timer of the peer. With
  \<open>keepAliveTimeoutMs\<close> below 1000 \<open>resetKeepAlive\<close> leaves no timeout pending. With at
  least 1000, a send on a connected peer that is not closing leaves exactly one timeout
  pending, due one period after the send; a second send before that time replaces the
  timeout, the two messages are all the socket got, and the first timeout never runs; and
  while the peer stays idle, connected and not closing, each expiry sends one ping that
  carries the time of the expiry and arms the next timeout, so \<open>n\<close> idle periods give
  exactly \<open>n\<close> pings. A timeout that expires on a peer that is closing or not connected sends
  nothing and arms nothing.
\<close>

theorem keepAlive_timer:
  assumes "own_timers (p, e)"
  shows "(keepAliveTimeoutMs p < 1000 \<longrightarrow> timeouts (snd (resetKeepAlive (p, e))) = []) \<and>
    (keepAliveTimeoutMs p \<ge> 1000 \<and> isConnected p \<and> \<not> isClosing p \<longrightarrow>
       armed (snd (send data cc (p, e))) (now e + keepAliveTimeoutMs p) \<and>
       (\<forall>t2 data2 cc2. now e \<le> t2 \<and> t2 < now e + keepAliveTimeoutMs p \<longrightarrow>
          socket_sent (fst (snd (send data2 cc2
              (fst (snd (send data cc (p, e))), (snd (snd (send data cc (p, e))))\<lparr>now := t2\<rparr>))))
            = socket_sent p @ [encode data, encode data2] \<and>
          armed (snd (send data2 cc2
              (fst (snd (send data cc (p, e))), (snd (snd (send data cc (p, e))))\<lparr>now := t2\<rparr>)))
            (t2 + keepAliveTimeoutMs p) \<and>
          expire (keepAliveTimer (fst (snd (send data cc (p, e)))))
             (snd (send data2 cc2
              (fst (snd (send data cc (p, e))), (snd (snd (send data cc (p, e))))\<lparr>now := t2\<rparr>)))
            = snd (send data2 cc2
              (fst (snd (send data cc (p, e))), (snd (snd (send data cc (p, e))))\<lparr>now := t2\<rparr>))) \<and>
       (\<forall>n. socket_sent (fst (idle n (snd (send data cc (p, e))))) =
              socket_sent p @ encode data #
                map (\<lambda>k. encode (keepAlive_ping (now e + (int k + 1) * keepAliveTimeoutMs p))) [0..<n])) \<and>
    ((\<not> isConnected p \<or> isClosing p) \<and> armed (p, e) d \<longrightarrow>
       expire (keepAliveTimer p) (p, e) = (p, e\<lparr>now := max (now e) d, timeouts := []\<rparr>))"
proof -
  let ?T = "keepAliveTimeoutMs p"
  have 1: "?T < 1000 \<longrightarrow> timeouts (snd (resetKeepAlive (p, e))) = []"
    using assms by (simp add: resetKeepAlive_disabled clearTimeout_def own_timers_filter)
  have 3: "(\<not> isConnected p \<or> isClosing p) \<and> armed (p, e) d \<longrightarrow>
       expire (keepAliveTimer p) (p, e) = (p, e\<lparr>now := max (now e) d, timeouts := []\<rparr>)"
    using expire_closed by blast
  have 2: "armed (snd (send data cc (p, e))) (now e + ?T) \<and>
       (\<forall>t2 data2 cc2. now e \<le> t2 \<and> t2 < now e + ?T \<longrightarrow>
          socket_sent (fst (snd (send data2 cc2
              (fst (snd (send data cc (p, e))), (snd (snd (send data cc (p, e))))\<lparr>now := t2\<rparr>))))
            = socket_sent p @ [encode data, encode data2] \<and>
          armed (snd (send data2 cc2
              (fst (snd (send data cc (p, e))), (snd (snd (send data cc (p, e))))\<lparr>now := t2\<rparr>)))
            (t2 + ?T) \<and>
          expire (keepAliveTimer (fst (snd (send data cc (p, e)))))
             (snd (send data2 cc2
              (fst (snd (send data cc (p, e))), (snd (snd (send data cc (p, e))))\<lparr>now := t2\<rparr>)))
            = snd (send data2 cc2
              (fst (snd (send data cc (p, e))), (snd (snd (send data cc (p, e))))\<lparr>now := t2\<rparr>))) \<and>
       (\<forall>n. socket_sent (fst (idle n (snd (send data cc (p, e))))) =
              socket_sent p @ encode data #
                map (\<lambda>k. encode (keepAlive_ping (now e + (int k + 1) * ?T))) [0..<n])"
    if h: "?T \<ge> 1000" "isConnected p" "\<not> isClosing p"
  proof -
    let ?p1 = "p\<lparr>keepAliveTimer := next_id e, socket_sent := socket_sent p @ [encode data]\<rparr>"
    let ?e1 = "e\<lparr>timeouts := [(next_id e, now e + ?T)], next_id := Suc (next_id e)\<rparr>"
    have s1: "send data cc (p, e) = (Inr (), (?p1, ?e1))"
      using h assms by (rule send_armed)
    have a1: "armed (?p1, ?e1) (now e + ?T)" by (simp add: armed_def)
    have second: "socket_sent (fst (snd (send data2 cc2 (?p1, ?e1\<lparr>now := t2\<rparr>))))
            = socket_sent p @ [encode data, encode data2] \<and>
          armed (snd (send data2 cc2 (?p1, ?e1\<lparr>now := t2\<rparr>))) (t2 + ?T) \<and>
          expire (keepAliveTimer ?p1) (snd (send data2 cc2 (?p1, ?e1\<lparr>now := t2\<rparr>)))
            = snd (send data2 cc2 (?p1, ?e1\<lparr>now := t2\<rparr>))" for t2 data2 cc2
    proof -
      have own1: "own_timers (?p1, ?e1\<lparr>now := t2\<rparr>)" by (simp add: own_timers_def)
      have "send data2 cc2 (?p1, ?e1\<lparr>now := t2\<rparr>) =
        (Inr (), (?p1\<lparr>keepAliveTimer := Suc (next_id e), socket_sent := socket_sent ?p1 @ [encode data2]\<rparr>,
                  ?e1\<lparr>now := t2, timeouts := [(Suc (next_id e), t2 + ?T)], next_id := Suc (Suc (next_id e))\<rparr>))"
        using send_armed [OF _ _ _ own1, of data2 cc2] h by simp
      then show ?thesis by (simp add: armed_def expire_not_pending)
    qed
    have idle: "socket_sent (fst (idle n (?p1, ?e1))) =
              socket_sent p @ encode data #
                map (\<lambda>k. encode (keepAlive_ping (now e + (int k + 1) * ?T))) [0..<n]" for n
      using idle_armed [of ?p1 ?e1 "now e + ?T" n] h a1 by (simp add: algebra_simps)
    show ?thesis using a1 second idle by (simp add: s1)
  qed
  from 1 2 3 show ?thesis by blast
qed

theorem keepAlive_timer_witness:
  "own_timers (onConnect (peer_connect (new_PhotonPeer ''ws://h:9090'' [])), new_env 0) \<and>
   keepAliveTimeoutMs (onConnect (peer_connect (new_PhotonPeer ''ws://h:9090'' []))) \<ge> 1000 \<and>
   isConnected (onConnect (peer_connect (new_PhotonPeer ''ws://h:9090'' []))) \<and>
   \<not> isClosing (onConnect (peer_connect (new_PhotonPeer ''ws://h:9090'' []))) \<and>
   armed (snd (send (JStr ''hi'') False
       (onConnect (peer_connect (new_PhotonPeer ''ws://h:9090'' [])), new_env 0))) 5000 \<and>
   socket_sent (fst (idle 2 (snd (send (JStr ''hi'') False
       (onConnect (peer_connect (new_PhotonPeer ''ws://h:9090'' [])), new_env 0)))))
     = [encode (JStr ''hi''), encode (keepAlive_ping 5000), encode (keepAlive_ping 10000)] \<and>
   own_timers ((new_PhotonPeer ''ws://h:9090'' [])\<lparr>keepAliveTimeoutMs := 500\<rparr>, new_env 0) \<and>
   keepAliveTimeoutMs ((new_PhotonPeer ''ws://h:9090'' [])\<lparr>keepAliveTimeoutMs := 500\<rparr>) < 1000 \<and>
   timeouts (snd (resetKeepAlive ((new_PhotonPeer ''ws://h:9090'' [])\<lparr>keepAliveTimeoutMs := 500\<rparr>, new_env 0))) = []"
proof -
  let ?p = "onConnect (peer_connect (new_PhotonPeer ''ws://h:9090'' []))"
  let ?q = "(new_PhotonPeer ''ws://h:9090'' [])\<lparr>keepAliveTimeoutMs := 500\<rparr>"
  have own: "own_timers (?p, new_env 0)" "own_timers (?q, new_env 0)"
    by (simp_all add: own_timers_def new_env_def new_PhotonPeer_def onConnect_def peer_connect_def)
  have flags: "keepAliveTimeoutMs ?p \<ge> 1000" "isConnected ?p" "\<not> isClosing ?p"
    "keepAliveTimeoutMs ?q < 1000" "now (new_env 0) = 0" "keepAliveTimeoutMs ?p = 5000"
    by (simp_all add: new_env_def new_PhotonPeer_def onConnect_def peer_connect_def)
  have idle2: "[0..<2] = [0, Suc 0]" by (simp add: upt_rec)
  note k = keepAlive_timer [OF own(1), where data = "JStr ''hi''" and cc = False]
  from k flags have a: "armed (snd (send (JStr ''hi'') False (?p, new_env 0))) 5000"
    by simp
  from k flags have "\<forall>n. socket_sent (fst (idle n (snd (send (JStr ''hi'') False (?p, new_env 0))))) =
      socket_sent ?p @ encode (JStr ''hi'') #
        map (\<lambda>k. encode (keepAlive_ping (now (new_env 0) + (int k + 1) * keepAliveTimeoutMs ?p))) [0..<n]"
    by blast
  then have i: "socket_sent (fst (idle 2 (snd (send (JStr ''hi'') False (?p, new_env 0))))) =
      [encode (JStr ''hi''), encode (keepAlive_ping 5000), encode (keepAlive_ping 10000)]"
    using flags by (simp add: idle2 new_PhotonPeer_def onConnect_def peer_connect_def del: idle.simps)
  from keepAlive_timer [OF own(2)] flags
  have r: "timeouts (snd (resetKeepAlive (?q, new_env 0))) = []" by blast
  show ?thesis using own flags a i r by simp
qed

text \<open>
  The claim as stated fails when the peer is closed during the idle period: the send arms
  the timeout, \<open>peer_disconnect\<close> runs, the timeout expires at its time, and the socket has
  got no ping.
\<close>

theorem keepAlive_timer_counterexample:
  "keepAliveTimeoutMs (onConnect (peer_connect (new_PhotonPeer ''ws://h:9090'' []))) \<ge> 1000 \<and>
   fst (send (JStr ''hi'') False
       (onConnect (peer_connect (new_PhotonPeer ''ws://h:9090'' [])), new_env 0)) = Inr () \<and>
   timeouts (snd (snd (send (JStr ''hi'') False
       (onConnect (peer_connect (new_PhotonPeer ''ws://h:9090'' [])), new_env 0)))) = [(1, 5000)] \<and>
   expire 1 (peer_disconnect (fst (snd (send (JStr ''hi'') False
       (onConnect (peer_connect (new_PhotonPeer ''ws://h:9090'' [])), new_env 0)))),
             snd (snd (send (JStr ''hi'') False
       (onConnect (peer_connect (new_PhotonPeer ''ws://h:9090'' [])), new_env 0))))
     = (peer_disconnect (fst (snd (send (JStr ''hi'') False
          (onConnect (peer_connect (new_PhotonPeer ''ws://h:9090'' [])), new_env 0)))),
        \<lparr>now = 5000, timeouts = [], next_id = 2\<rparr>) \<and>
   socket_sent (peer_disconnect (fst (snd (send (JStr ''hi'') False
       (onConnect (peer_connect (new_PhotonPeer ''ws://h:9090'' [])), new_env 0)))))
     = [encode (JStr ''hi'')]"
  by (simp add: send_def resetKeepAlive_def setTimeout_def clearTimeout_def expire_def
        keepAlive_callback_def new_env_def new_PhotonPeer_def onConnect_def peer_connect_def
        peer_disconnect_def Let_def)

section \<open>Properties of the workflow state\<close>

lemma checkNextState_snd: "snd (checkNextState nextState dontThrow c) = c"
  by (simp add: checkNextState_def Let_def)

lemma initValidNextState_pairs:
  "(\<exists>valid. initValidNextState Map.empty s = Some valid \<and> n \<in> set valid) \<longleftrightarrow>
     (s, n) \<in> {(Error, ConnectingToMasterserver), (Uninitialized, ConnectingToMasterserver),
               (Disconnected, ConnectingToMasterserver), (ConnectedToMaster, JoinedLobby),
               (JoinedLobby, ConnectingToGameserver),
               (ConnectingToGameserver, ConnectedToGameserver),
               (ConnectedToGameserver, Joined)}"
  by (cases s) (auto simp: initValidNextState_def)

text \<open>
  Claim C3. A guarded attempt (\<open>dontThrow\<close> false) returns \<^verbatim>\<open>true\<close> exactly when the
  table lists the requested state for the current one; for every other pair, also when the
  table has no entry for the current state, it throws the state-violation error; and whatever
  the arguments, the client is after the call as it was before, its state with it. The table
  the constructor builds lists seven pairs.
\<close>

theorem checkNextState_table:
  "(checkNextState nextState False c = (Inr (JBool True), c) \<longleftrightarrow>
      (\<exists>valid. validNextState c (state c) = Some valid \<and> nextState \<in> set valid)) \<and>
   (\<not> (\<exists>valid. validNextState c (state c) = Some valid \<and> nextState \<in> set valid) \<longrightarrow>
      checkNextState nextState False c = (Inl (CheckNextStateFail (state c) nextState), c)) \<and>
   snd (checkNextState nextState dontThrow c) = c \<and>
   state (snd (checkNextState nextState dontThrow c)) = state c \<and>
   (validNextState c = initValidNextState Map.empty \<longrightarrow>
      ((\<exists>valid. validNextState c (state c) = Some valid \<and> nextState \<in> set valid) \<longleftrightarrow>
       (state c, nextState) \<in>
         {(Error, ConnectingToMasterserver), (Uninitialized, ConnectingToMasterserver),
          (Disconnected, ConnectingToMasterserver), (ConnectedToMaster, JoinedLobby),
          (JoinedLobby, ConnectingToGameserver),
          (ConnectingToGameserver, ConnectedToGameserver),
          (ConnectedToGameserver, Joined)}))"
proof -
  have 1: "checkNextState nextState False c = (Inr (JBool True), c) \<longleftrightarrow>
      (\<exists>valid. validNextState c (state c) = Some valid \<and> nextState \<in> set valid)"
    by (auto simp: checkNextState_def Let_def split: option.splits)
  have 2: "\<not> (\<exists>valid. validNextState c (state c) = Some valid \<and> nextState \<in> set valid) \<longrightarrow>
      checkNextState nextState False c = (Inl (CheckNextStateFail (state c) nextState), c)"
    by (auto simp: checkNextState_def Let_def split: option.splits)
  have 3: "validNextState c = initValidNextState Map.empty \<longrightarrow>
      ((\<exists>valid. validNextState c (state c) = Some valid \<and> nextState \<in> set valid) \<longleftrightarrow>
       (state c, nextState) \<in>
         {(Error, ConnectingToMasterserver), (Uninitialized, ConnectingToMasterserver),
          (Disconnected, ConnectingToMasterserver), (ConnectedToMaster, JoinedLobby),
          (JoinedLobby, ConnectingToGameserver),
          (ConnectingToGameserver, ConnectedToGameserver),
          (ConnectedToGameserver, Joined)})"
    using initValidNextState_pairs [of "state c" nextState] by simp
  from 1 2 3 show ?thesis by (simp add: checkNextState_snd)
qed

lemma new_client_fields:
  "state (new_LoadBalancingClient addr) = Uninitialized"
  "validNextState (new_LoadBalancingClient addr) = initValidNextState Map.empty"
  "masterServerAddress (new_LoadBalancingClient addr) = addr"
  "roomInfos (new_LoadBalancingClient addr) = []"
  by (simp_all add: new_LoadBalancingClient_def addActor_def)

theorem checkNextState_table_witness:
  "\<not> (\<exists>valid. validNextState (new_LoadBalancingClient ''master:9090'')
         (state (new_LoadBalancingClient ''master:9090'')) = Some valid \<and> Joined \<in> set valid) \<and>
   checkNextState Joined False (new_LoadBalancingClient ''master:9090'')
     = (Inl (CheckNextStateFail Uninitialized Joined), new_LoadBalancingClient ''master:9090'') \<and>
   state (snd (checkNextState Joined False (new_LoadBalancingClient ''master:9090''))) = Uninitialized \<and>
   checkNextState ConnectingToMasterserver False (new_LoadBalancingClient ''master:9090'')
     = (Inr (JBool True), new_LoadBalancingClient ''master:9090'') \<and>
   \<not> (\<exists>valid. validNextState (changeState Joined (new_LoadBalancingClient ''master:9090''))
         (state (changeState Joined (new_LoadBalancingClient ''master:9090''))) = Some valid \<and>
         ConnectingToMasterserver \<in> set valid) \<and>
   checkNextState ConnectingToMasterserver False (changeState Joined (new_LoadBalancingClient ''master:9090''))
     = (Inl (CheckNextStateFail Joined ConnectingToMasterserver),
        changeState Joined (new_LoadBalancingClient ''master:9090''))"
proof -
  let ?c = "new_LoadBalancingClient ''master:9090''"
  have j: "state (changeState Joined ?c) = Joined"
    "validNextState (changeState Joined ?c) = initValidNextState Map.empty"
    by (simp_all add: changeState_def new_client_fields)
  show ?thesis
    using checkNextState_table [of Joined ?c]
      checkNextState_table [of ConnectingToMasterserver ?c]
      checkNextState_table [of ConnectingToMasterserver "changeState Joined ?c"]
    by (simp add: new_client_fields j)
qed

text \<open>
  Claim C9. \<open>connect\<close> never returns \<^verbatim>\<open>false\<close>: either \<open>checkNextState\<close> throws, and the
  client is as before but for \<open>reconnectPending\<close>, or the call returns \<^verbatim>\<open>true\<close> with the
  state \<open>ConnectingToMasterserver\<close> and a master peer that is created for the address of the
  master server, has its listeners and is connecting.
\<close>

theorem connect_never_false:
  "fst (connect keepMaster c) \<noteq> Inr False \<and>
   (connect keepMaster c =
      (Inl (CheckNextStateFail (state c) ConnectingToMasterserver), c\<lparr>reconnectPending := False\<rparr>) \<or>
    connect keepMaster c =
      (Inr True,
       c\<lparr>reconnectPending := False, state := ConnectingToMasterserver,
         keepMasterConnection := keepMaster,
         masterPeer := Some (peer_connect (initMasterPeer
                         (new_PhotonPeer (''ws://'' @ masterServerAddress c) [])))\<rparr>))"
proof (cases "\<exists>valid. validNextState c (state c) = Some valid \<and> ConnectingToMasterserver \<in> set valid")
  case True
  then have "checkNextState ConnectingToMasterserver False (c\<lparr>reconnectPending := False\<rparr>)
      = (Inr (JBool True), c\<lparr>reconnectPending := False\<rparr>)"
    by (auto simp: checkNextState_def Let_def)
  then show ?thesis by (simp add: connect_def Let_def changeState_def)
next
  case False
  then have "checkNextState ConnectingToMasterserver False (c\<lparr>reconnectPending := False\<rparr>)
      = (Inl (CheckNextStateFail (state c) ConnectingToMasterserver), c\<lparr>reconnectPending := False\<rparr>)"
    by (auto simp: checkNextState_def Let_def split: option.splits)
  then show ?thesis by (simp add: connect_def Let_def)
qed

theorem connect_never_false_witness:
  "connect False (new_LoadBalancingClient ''master:9090'') =
     (Inr True,
      (new_LoadBalancingClient ''master:9090'')
        \<lparr>reconnectPending := False, state := ConnectingToMasterserver,
         keepMasterConnection := False,
         masterPeer := Some (peer_connect (initMasterPeer (new_PhotonPeer ''ws://master:9090'' [])))\<rparr>) \<and>
   connect False (changeState Joined (new_LoadBalancingClient ''master:9090'')) =
     (Inl (CheckNextStateFail Joined ConnectingToMasterserver),
      (changeState Joined (new_LoadBalancingClient ''master:9090''))\<lparr>reconnectPending := False\<rparr>)"
proof -
  let ?c = "new_LoadBalancingClient ''master:9090''"
  have a: "connect False ?c \<noteq>
      (Inl (CheckNextStateFail (state ?c) ConnectingToMasterserver), ?c\<lparr>reconnectPending := False\<rparr>)"
    by (simp add: connect_def Let_def checkNextState_def new_client_fields initValidNextState_def)
  have b: "fst (connect False (changeState Joined ?c)) \<noteq> Inr True"
    by (simp add: connect_def Let_def checkNextState_def new_client_fields initValidNextState_def
          changeState_def)
  show ?thesis
    using connect_never_false [of False ?c] connect_never_false [of False "changeState Joined ?c"] a b
    by (auto simp: new_client_fields changeState_def)
qed

section \<open>Properties of the room properties\<close>













lemma parseInt_p: "numToString (parseInt ''p'') = ''NaN''"
  by (simp add: parseInt_def is_space_def is_digit_def Let_def)

lemma parseInt_007: "numToString (parseInt ''007'') = ''7''"
proof -
  have "parseInt ''007'' = Fin 7"
    by (simp add: parseInt_def Let_def is_space_def is_digit_def dec_val_def digit_val_def
          to_double_small)
  then show ?thesis by (simp add: js_eval)
qed

lemma parseInt_255: "numToString (parseInt ''255'') = ''255''"
  using numToString_parseInt_digits10 [of 255] by (simp add: digits10.simps digit_char_def)

lemma parseInt_251: "numToString (parseInt ''251'') = ''251''"
  using numToString_parseInt_digits10 [of 251] by (simp add: digits10.simps digit_char_def)

lemmas room_eval = updateFromProps_def updateIfExists_def new_RoomInfo_def Let_def obj_get_def
  obj_set_def GameProperties_MaxPlayers_def GameProperties_IsVisible_def
  GameProperties_IsOpen_def GameProperties_PlayerCount_def GameProperties_Removed_def
  GameProperties_PropsListedInLobby_def GameProperties_CleanupCacheOnLeave_def
  parseInt_p parseInt_251 parseInt_255 parseInt_007


section \<open>Properties of the room list\<close>

lemma example_roomInfos:
  "roomInfos (fst (onGameListUpdate
       [(''A'', [(''p'', JNum (Fin 1))]), (''B'', [(''p'', JNum (Fin 2))])]
       (new_LoadBalancingClient ''master:9090'')))
     = [(new_RoomInfo ''A'')\<lparr>customProperties := [(''p'', JNum (Fin 1))]\<rparr>,
        (new_RoomInfo ''B'')\<lparr>customProperties := [(''p'', JNum (Fin 2))]\<rparr>]"
  by (simp add: onGameListUpdate_def gameListUpdate_step_def new_client_fields room_eval)

lemma example_update:
  "roomInfos c = [(new_RoomInfo ''A'')\<lparr>customProperties := [(''p'', JNum (Fin 1))]\<rparr>,
                  (new_RoomInfo ''B'')\<lparr>customProperties := [(''p'', JNum (Fin 2))]\<rparr>] \<Longrightarrow>
   snd (onGameListUpdate
       [(''A'', [(''p'', JNum (Fin 5))]),
        (''C'', [(''251'', JBool True), (''p'', JNum (Fin 1))]),
        (''D'', [(''p'', JNum (Fin 3))])] c)
     = ([(new_RoomInfo ''A'')\<lparr>customProperties := [(''p'', JNum (Fin 5))]\<rparr>,
         (new_RoomInfo ''B'')\<lparr>customProperties := [(''p'', JNum (Fin 2))]\<rparr>,
         (new_RoomInfo ''D'')\<lparr>customProperties := [(''p'', JNum (Fin 3))]\<rparr>],
        [(new_RoomInfo ''A'')\<lparr>customProperties := [(''p'', JNum (Fin 5))]\<rparr>],
        [(new_RoomInfo ''C'')\<lparr>removed := JBool True, customProperties := [(''p'', JNum (Fin 1))]\<rparr>,
         (new_RoomInfo ''D'')\<lparr>customProperties := [(''p'', JNum (Fin 3))]\<rparr>],
        [])"
  by (simp add: onGameListUpdate_def gameListUpdate_step_def room_eval)

text \<open>
  Claim C1, as amended. The client of the example holds \<open>A\<close> with \<open>p = 1\<close> and \<open>B\<close> with
  \<open>p = 2\<close>. On the batch the listener reports \<open>A\<close> with \<open>p = 5\<close> as updated, no room as
  removed, and both unmatched entries as added: \<open>C\<close>, flagged removed, and \<open>D\<close>. The room
  list afterwards is \<open>A\<close> with \<open>p = 5\<close>, \<open>B\<close> with \<open>p = 2\<close>, \<open>D\<close> with \<open>p = 3\<close>.
\<close>

theorem onGameListUpdate_example:
  "roomInfos example_client
     = [(new_RoomInfo ''A'')\<lparr>customProperties := [(''p'', JNum (Fin 1))]\<rparr>,
        (new_RoomInfo ''B'')\<lparr>customProperties := [(''p'', JNum (Fin 2))]\<rparr>] \<and>
   snd (onGameListUpdate example_batch example_client)
     = ([(new_RoomInfo ''A'')\<lparr>customProperties := [(''p'', JNum (Fin 5))]\<rparr>,
         (new_RoomInfo ''B'')\<lparr>customProperties := [(''p'', JNum (Fin 2))]\<rparr>,
         (new_RoomInfo ''D'')\<lparr>customProperties := [(''p'', JNum (Fin 3))]\<rparr>],
        [(new_RoomInfo ''A'')\<lparr>customProperties := [(''p'', JNum (Fin 5))]\<rparr>],
        [(new_RoomInfo ''C'')\<lparr>removed := JBool True, customProperties := [(''p'', JNum (Fin 1))]\<rparr>,
         (new_RoomInfo ''D'')\<lparr>customProperties := [(''p'', JNum (Fin 3))]\<rparr>],
        []) \<and>
   roomInfos (fst (onGameListUpdate example_batch example_client))
     = fst (snd (onGameListUpdate example_batch example_client))"
proof -
  have r: "roomInfos example_client
     = [(new_RoomInfo ''A'')\<lparr>customProperties := [(''p'', JNum (Fin 1))]\<rparr>,
        (new_RoomInfo ''B'')\<lparr>customProperties := [(''p'', JNum (Fin 2))]\<rparr>]"
    unfolding example_client_def by (rule example_roomInfos)
  have "roomInfos (fst (onGameListUpdate example_batch example_client))
     = fst (snd (onGameListUpdate example_batch example_client))"
    by (simp add: onGameListUpdate_def Let_def split: prod.splits)
  with r example_update [OF r] show ?thesis by (simp add: example_batch_def)
qed

text \<open>
  The claim as stated fails: the rooms reported as added are \<open>C\<close> and \<open>D\<close>, not \<open>D\<close> alone.
\<close>

theorem onGameListUpdate_counterexample:
  "map name (fst (snd (snd (snd (onGameListUpdate example_batch example_client))))) = [''C'', ''D'']"
proof -
  have r: "roomInfos example_client
     = [(new_RoomInfo ''A'')\<lparr>customProperties := [(''p'', JNum (Fin 1))]\<rparr>,
        (new_RoomInfo ''B'')\<lparr>customProperties := [(''p'', JNum (Fin 2))]\<rparr>]"
    unfolding example_client_def by (rule example_roomInfos)
  show ?thesis
    using example_update [OF r] by (simp add: example_batch_def new_RoomInfo_def)
qed


section \<open>Properties of the join responses\<close>




lemma foldl_add_listed_actor_fields:
  "myActor (foldl add_listed_actor c actorList) = myActor c"
  "state (foldl add_listed_actor c actorList) = state c"
  by (induction actorList arbitrary: c) (simp_all add: add_listed_actor_def addActor_def split: prod.splits)




end
